theory Spec2Isabelle
  imports Complex_Main "HOL-Library.Log_Nat"
begin

section \<open>JavaScript values\<close>

text \<open>
  A JavaScript string is a \<^typ>\<open>string\<close>: one \<^typ>\<open>char\<close> per code unit, for the
  code units below 256. An optional or nullable value is an \<^typ>\<open>'a option\<close>, with
  \<^term>\<open>None\<close> for both \<^verbatim>\<open>undefined\<close> and \<^verbatim>\<open>null\<close>. A number is a double: a
  finite value, NaN or an infinity (the two zeros are one).
\<close>

text \<open>What is thrown: a \<^verbatim>\<open>TypeError\<close> of the language, or the error, with its message,
  that an outside call rejects with.\<close>

datatype exn = TypeError | Rejected string

datatype number = Finite rat | NaN | PosInfinity | NegInfinity

fun isFinite :: "number \<Rightarrow> bool" where
  "isFinite (Finite r) = True"
| "isFinite NaN = False"
| "isFinite PosInfinity = False"
| "isFinite NegInfinity = False"

text \<open>\<^verbatim>\<open>x >= 1\<close> on numbers: false for NaN.\<close>

fun ge_one :: "number \<Rightarrow> bool" where
  "ge_one (Finite r) = (1 \<le> r)"
| "ge_one NaN = False"
| "ge_one PosInfinity = True"
| "ge_one NegInfinity = False"

text \<open>The result of an exact sum or difference is rounded to the nearest double, a tie
  going to the double with the even significand: 53 bits of significand, the least
  exponent of a normal double is -1022, and what rounds to \<open>2 ^ 1024\<close> or beyond is an
  infinity.\<close>

text \<open>For \<open>x > 0\<close>, the exponent \<open>e\<close> with \<open>2 ^ e \<le> x < 2 ^ (e + 1)\<close>: one of the two
  candidates that the bit lengths of numerator and denominator leave.\<close>

definition binaryExponent :: "rat \<Rightarrow> int" where
  "binaryExponent x =
     (let d = bitlen (fst (quotient_of x)) - bitlen (snd (quotient_of x))
      in if 2 powi d \<le> x then d else d - 1)"

definition roundHalfEven :: "rat \<Rightarrow> int" where
  "roundHalfEven x =
     (let f = \<lfloor>x\<rfloor>; r = x - of_int f
      in if r < 1 / 2 then f
         else if 1 / 2 < r then f + 1
         else if even f then f else f + 1)"

definition toDouble :: "rat \<Rightarrow> number" where
  "toDouble x =
     (if x = 0 then Finite 0
      else
        (let e = max (binaryExponent \<bar>x\<bar>) (- 1022);
             q = 2 powi (e - 52);
             y = of_int (roundHalfEven (x / q)) * q
         in if 2 powi 1024 \<le> \<bar>y\<bar> then (if 0 < x then PosInfinity else NegInfinity)
            else Finite y))"

text \<open>\<^verbatim>\<open>a + b\<close> and \<^verbatim>\<open>a - b\<close> on numbers.\<close>

fun js_add :: "number \<Rightarrow> number \<Rightarrow> number" where
  "js_add (Finite a) (Finite b) = toDouble (a + b)"
| "js_add NaN b = NaN"
| "js_add a NaN = NaN"
| "js_add PosInfinity NegInfinity = NaN"
| "js_add NegInfinity PosInfinity = NaN"
| "js_add PosInfinity b = PosInfinity"
| "js_add NegInfinity b = NegInfinity"
| "js_add a PosInfinity = PosInfinity"
| "js_add a NegInfinity = NegInfinity"

fun negated :: "number \<Rightarrow> number" where
  "negated (Finite a) = Finite (- a)"
| "negated NaN = NaN"
| "negated PosInfinity = NegInfinity"
| "negated NegInfinity = PosInfinity"

definition js_sub :: "number \<Rightarrow> number \<Rightarrow> number" where
  "js_sub a b = js_add a (negated b)"

text \<open>\<^verbatim>\<open>Math.max(0, x)\<close>: NaN for NaN.\<close>

fun Math_max_0 :: "number \<Rightarrow> number" where
  "Math_max_0 (Finite r) = Finite (max 0 r)"
| "Math_max_0 NaN = NaN"
| "Math_max_0 PosInfinity = PosInfinity"
| "Math_max_0 NegInfinity = Finite 0"

text \<open>The number of a length.\<close>

definition fromNat :: "nat \<Rightarrow> number" where
  "fromNat n = Finite (of_nat n)"

text \<open>Truthiness of an optional number: \<^verbatim>\<open>undefined\<close>, 0 and NaN are falsy.\<close>

definition truthyNumber :: "number option \<Rightarrow> bool" where
  "truthyNumber v = (case v of None \<Rightarrow> False | Some n \<Rightarrow> n \<noteq> Finite 0 \<and> n \<noteq> NaN)"

text \<open>The value of a response field, or an item of a returned list. \<open>'d\<close> is the type
  of the documents of the store the tool reads; a document that a tool hands on untouched
  is a \<open>JDoc\<close>.\<close>

datatype 'd jsval =
    JUndefined
  | JNull
  | JNumber number
  | JString string
  | JArray "'d jsval list"
  | JObject "(string \<times> 'd jsval) list"
  | JDoc 'd

type_synonym 'd object = "(string \<times> 'd jsval) list"

text \<open>Truthiness of an optional string: \<^verbatim>\<open>undefined\<close> and the empty string are falsy.\<close>

definition truthy :: "string option \<Rightarrow> bool" where
  "truthy v = (case v of None \<Rightarrow> False | Some s \<Rightarrow> s \<noteq> [])"

text \<open>The white space \<^verbatim>\<open>String.prototype.trim\<close> removes, among the code units below 256:
  tab, line feed, vertical tab, form feed, carriage return, space, no-break space.\<close>

definition isWhiteSpace :: "char \<Rightarrow> bool" where
  "isWhiteSpace c = ((of_char c :: nat) \<in> {9, 10, 11, 12, 13, 32, 160})"

definition trim :: "string \<Rightarrow> string" where
  "trim s = rev (dropWhile isWhiteSpace (rev (dropWhile isWhiteSpace s)))"

text \<open>\<^verbatim>\<open>toLowerCase\<close>: the capital letters A to Z and the capital letters of Latin-1
  move up by 32.\<close>

definition lowerChar :: "char \<Rightarrow> char" where
  "lowerChar c =
     (let n = (of_char c :: nat)
      in if (65 \<le> n \<and> n \<le> 90) \<or> (192 \<le> n \<and> n \<le> 222 \<and> n \<noteq> 215)
         then char_of (n + 32) else c)"

definition toLowerCase :: "string \<Rightarrow> string" where
  "toLowerCase s = map lowerChar s"

text \<open>\<^verbatim>\<open>s.includes(sub)\<close>: \<open>sub\<close> occurs in \<open>s\<close> as a contiguous run.\<close>

fun js_includes :: "string \<Rightarrow> string \<Rightarrow> bool" where
  "js_includes [] sub = (sub = [])"
| "js_includes (c # cs) sub = (take (length sub) (c # cs) = sub \<or> js_includes cs sub)"

text \<open>\<^verbatim>\<open>parts.join(sep)\<close>.\<close>

fun join :: "string \<Rightarrow> string list \<Rightarrow> string" where
  "join sep [] = []"
| "join sep [x] = x"
| "join sep (x # y # ys) = x @ sep @ join sep (y # ys)"

text \<open>\<^verbatim>\<open>JSON.stringify\<close> of an array of strings that need no escaping.\<close>

definition quoted :: "string \<Rightarrow> string" where
  \<open>quoted s = ''"'' @ s @ ''"''\<close>

definition JSON_stringify :: "string list \<Rightarrow> string" where
  "JSON_stringify xs = ''['' @ join '','' (map quoted xs) @ '']''"

text \<open>The helpers of \<^verbatim>\<open>lib/ai/tools.ts\<close>.\<close>

definition asStringOrNull :: "string option \<Rightarrow> string option" where
  "asStringOrNull v =
     (case v of None \<Rightarrow> None | Some s \<Rightarrow> if length (trim s) > 0 then Some s else None)"

definition asNumberOrNull :: "number option \<Rightarrow> number option" where
  "asNumberOrNull v =
     (case v of None \<Rightarrow> None | Some n \<Rightarrow> if isFinite n then Some n else None)"

definition stringOrNull :: "string option \<Rightarrow> 'd jsval" where
  "stringOrNull v = (case v of None \<Rightarrow> JNull | Some s \<Rightarrow> JString s)"

definition numberOrNull :: "number option \<Rightarrow> 'd jsval" where
  "numberOrNull v = (case v of None \<Rightarrow> JNull | Some n \<Rightarrow> JNumber n)"

section \<open>Effects\<close>

text \<open>
  A computation returns the calls it made to the outside, in order, and either the
  exception that ended it (\<open>Inl\<close>) or its value (\<open>Inr\<close>). What an outside call answers
  is a parameter of the model.
\<close>

type_synonym ('e, 'a) io = "'e list \<times> (exn + 'a)"

definition returns :: "'a \<Rightarrow> ('e, 'a) io" where
  "returns a = ([], Inr a)"

definition call :: "'e \<Rightarrow> exn + 'a \<Rightarrow> ('e, 'a) io" where
  "call ev answer = ([ev], answer)"

abbreviation calls :: "('e, 'a) io \<Rightarrow> 'e list" where
  "calls m \<equiv> fst m"

abbreviation outcome :: "('e, 'a) io \<Rightarrow> exn + 'a" where
  "outcome m \<equiv> snd m"

text \<open>\<^verbatim>\<open>const a = await m; ... f a\<close>: an exception of \<open>m\<close> ends the computation.\<close>

definition andThen :: "('e, 'a) io \<Rightarrow> ('a \<Rightarrow> ('e, 'b) io) \<Rightarrow> ('e, 'b) io" where
  "andThen m f =
     (case outcome m of
        Inl e \<Rightarrow> (calls m, Inl e)
      | Inr a \<Rightarrow> (calls m @ calls (f a), outcome (f a)))"

text \<open>\<^verbatim>\<open>try { m } catch (e) { h e }\<close>.\<close>

definition tryCatch :: "('e, 'a) io \<Rightarrow> (exn \<Rightarrow> ('e, 'a) io) \<Rightarrow> ('e, 'a) io" where
  "tryCatch m h =
     (case outcome m of
        Inl e \<Rightarrow> (calls m @ calls (h e), outcome (h e))
      | Inr a \<Rightarrow> m)"

section \<open>Response headers (next.config.ts)\<close>

record route_headers =
  source :: string
  headers :: "(string \<times> string) list"

definition permissionsPolicy :: "string list" where
  "permissionsPolicy =
     [''geolocation=()'',
      ''microphone=()'',
      ''camera=()'',
      ''autoplay=()'',
      ''payment=()'',
      ''publickey-credentials-get=()'',
      ''screen-wake-lock=()'',
      ''usb=()'',
      ''web-share=()'',
      ''fullscreen=(self)'',
      ''picture-in-picture=(self)'',
      ''display-capture=()'',
      ''encrypted-media=()'',
      ''gyroscope=()'',
      ''magnetometer=()'',
      ''midi=()'']"

definition nextConfig_headers :: "route_headers list" where
  "nextConfig_headers =
     [\<lparr>source = ''/:path*'',
       headers =
         [(''X-Content-Type-Options'', ''nosniff''),
          (''X-Frame-Options'', ''SAMEORIGIN''),
          (''Referrer-Policy'', ''strict-origin-when-cross-origin''),
          (''Cross-Origin-Opener-Policy'', ''same-origin''),
          (''Cross-Origin-Resource-Policy'', ''same-origin''),
          (''X-Permitted-Cross-Domain-Policies'', ''none''),
          (''Permissions-Policy'', join '', '' permissionsPolicy)]\<rparr>]"

text \<open>A directive of the permissions policy that allows a feature to no origin.\<close>

definition deniesAll :: "string \<Rightarrow> bool" where
  "deniesAll d = (length d \<ge> 3 \<and> drop (length d - 3) d = ''=()'')"

section \<open>The content store\<close>

text \<open>
  A query written in \<^verbatim>\<open>tools.ts\<close> is the text of its template literal, character by
  character, line breaks and indentation included, with the interpolated text pasted in
  as it is. A query imported from \<^verbatim>\<open>@/sanity/lib/queries/ai\<close> is known by its name
  only. The store answers a query and its parameters with a list of documents, or
  rejects the request.
\<close>

datatype query_const =
    AI_CATEGORIES_QUERY
  | AI_SEARCH_VENUES_QUERY
  | AI_USER_UPCOMING_BOOKINGS_QUERY
  | AI_USER_ALL_BOOKINGS_QUERY
  | AI_USER_PAST_BOOKINGS_QUERY

datatype query = Groq string | Imported query_const

datatype fetch = Fetch query "(string \<times> string) list"

type_synonym 'd store = "query \<Rightarrow> (string \<times> string) list \<Rightarrow> exn + 'd list"

definition client_fetch ::
  "'d store \<Rightarrow> query \<Rightarrow> (string \<times> string) list \<Rightarrow> (fetch, 'd list) io" where
  "client_fetch store q params = call (Fetch q params) (store q params)"

text \<open>The lines of a template literal, joined by line feeds.\<close>

definition lineFeed :: string where
  "lineFeed = [CHR 0x0A]"

definition template :: "string list \<Rightarrow> string" where
  "template ls = join lineFeed ls"

section \<open>The assistant's tools (lib/ai/tools.ts)\<close>

datatype tier = basic | performance | champion

fun tier_name :: "tier \<Rightarrow> string" where
  "tier_name basic = ''basic''"
| "tier_name performance = ''performance''"
| "tier_name champion = ''champion''"

text \<open>What the tools read of an activity document: its category, and the category's name.
  The callbacks annotate \<^verbatim>\<open>{ category?: { name: string } }\<close>; the projection
  \<^verbatim>\<open>category->{name}\<close> gives a null name for a category that has none, as the
  \<^verbatim>\<open>name?.\<close> of \<^verbatim>\<open>searchClasses\<close> expects. The other projected fields are the
  record's extension.\<close>

record category_ref =
  name :: "string option"

record activity =
  category :: "category_ref option"

text \<open>The filter both activity queries start from.\<close>

definition upcomingActivity :: string where
  \<open>upcomingActivity =
     ''_type == "activity" && count(*[_type == "classSession" && activity._ref == ^._id && startTime > now() && status == "scheduled"]) > 0''\<close>

text \<open>\<^verbatim>\<open>if (v) filter += clause\<close> for an optional string \<open>v\<close>.\<close>

definition whenTruthy :: "string option \<Rightarrow> (string \<Rightarrow> string) \<Rightarrow> string" where
  "whenTruthy v clause = (case v of None \<Rightarrow> [] | Some s \<Rightarrow> if s = [] then [] else clause s)"

subsection \<open>searchClasses\<close>

definition searchClasses_filter :: "string option \<Rightarrow> string option \<Rightarrow> tier option \<Rightarrow> string" where
  \<open>searchClasses_filter query instructor tierLevel =
     upcomingActivity
     @ whenTruthy query (\<lambda>q. '' && (name match "*'' @ q @ ''*" || instructor match "*'' @ q @ ''*")'')
     @ whenTruthy instructor (\<lambda>i. '' && instructor match "*'' @ i @ ''*"'')
     @ (case tierLevel of None \<Rightarrow> [] | Some t \<Rightarrow> '' && tierLevel == "'' @ tier_name t @ ''"'')\<close>

definition searchClasses_query :: "string option \<Rightarrow> string option \<Rightarrow> tier option \<Rightarrow> query" where
  "searchClasses_query query instructor tierLevel =
     Groq (template
       [''*['' @ searchClasses_filter query instructor tierLevel
          @ ''] | order(name asc) [0...10] {'',
        ''      _id,'',
        ''      name,'',
        ''      instructor,'',
        ''      duration,'',
        ''      tierLevel,'',
        ''      category->{name}'',
        ''    }''])"

text \<open>The callback of the category filter:
  \<^verbatim>\<open>a.category?.name?.toLowerCase().includes(category.toLowerCase())\<close>.\<close>

definition inCategory :: "string \<Rightarrow> 'm activity_scheme \<Rightarrow> bool" where
  "inCategory wanted a =
     (case Option.bind (category a) name of
        None \<Rightarrow> False
      | Some n \<Rightarrow> js_includes (toLowerCase n) (toLowerCase wanted))"

definition searchClasses ::
  "'m activity_scheme store \<Rightarrow> string option \<Rightarrow> string option \<Rightarrow> string option \<Rightarrow> tier option
     \<Rightarrow> (fetch, 'm activity_scheme object) io" where
  "searchClasses store query wanted instructor tierLevel =
     andThen (client_fetch store (searchClasses_query query instructor tierLevel) [])
       (\<lambda>activities.
          let filtered =
                (case wanted of
                   None \<Rightarrow> activities
                 | Some c \<Rightarrow> if c = [] then activities else filter (inCategory c) activities)
          in returns
               [(''count'', JNumber (fromNat (length filtered))),
                (''classes'', JArray (map JDoc filtered))])"

subsection \<open>getClassSessions\<close>

record session_activity =
  activity_name :: "string option"
  activity_instructor :: "string option"
  activity_duration :: "number option"
  activity_tierLevel :: "string option"

record session_venue =
  venue_name :: "string option"
  venue_city :: "string option"

record SessionFromQuery =
  session_id :: string
  startTime :: "string option"
  maxCapacity :: "number option"
  currentBookings :: "number option"
  session_activity :: "session_activity option"
  session_venue :: "session_venue option"

definition sessionsQuery :: query where
  \<open>sessionsQuery =
     Groq (template
       [''*['',
        ''      _type == "classSession" '',
        ''      && activity->name match $classNamePattern '',
        ''      && startTime > now() '',
        ''      && status == "scheduled"'',
        ''    ] | order(startTime asc) [0...10] {'',
        ''      _id,'',
        ''      startTime,'',
        ''      maxCapacity,'',
        ''      "currentBookings": count(*[_type == "booking" && classSession._ref == ^._id && status == "confirmed"]),'',
        ''      activity->{name, instructor, duration, tierLevel},'',
        ''      venue->{name, "city": address.city}'',
        ''    }''])\<close>

text \<open>\<^verbatim>\<open>v ?? 0\<close>.\<close>

definition orZero :: "number option \<Rightarrow> number" where
  "orZero v = (case v of None \<Rightarrow> Finite 0 | Some n \<Rightarrow> n)"

definition spotsAvailable :: "SessionFromQuery \<Rightarrow> number" where
  "spotsAvailable s =
     (let maxCapacity = orZero (maxCapacity s);
          currentBookings = orZero (currentBookings s)
      in Math_max_0 (js_sub maxCapacity currentBookings))"

definition sessionItem :: "SessionFromQuery \<Rightarrow> SessionFromQuery jsval" where
  "sessionItem s =
     JObject
       [(''id'', JString (session_id s)),
        (''startTime'', stringOrNull (asStringOrNull (startTime s))),
        (''spotsAvailable'', JNumber (spotsAvailable s)),
        (''activity'',
           (case session_activity s of
              None \<Rightarrow> JNull
            | Some a \<Rightarrow>
                JObject
                  [(''name'', stringOrNull (asStringOrNull (activity_name a))),
                   (''instructor'', stringOrNull (asStringOrNull (activity_instructor a))),
                   (''duration'', numberOrNull (asNumberOrNull (activity_duration a))),
                   (''tierLevel'', stringOrNull (asStringOrNull (activity_tierLevel a)))])),
        (''venue'',
           (case session_venue s of
              None \<Rightarrow> JNull
            | Some v \<Rightarrow>
                JObject
                  [(''name'', stringOrNull (asStringOrNull (venue_name v))),
                   (''city'', stringOrNull (asStringOrNull (venue_city v)))]))]"

definition getClassSessions ::
  "SessionFromQuery store \<Rightarrow> string \<Rightarrow> (fetch, SessionFromQuery object) io" where
  "getClassSessions store className =
     andThen (client_fetch store sessionsQuery [(''classNamePattern'', ''*'' @ className @ ''*'')])
       (\<lambda>sessions.
          returns
            [(''count'', JNumber (fromNat (length sessions))),
             (''sessions'', JArray (map sessionItem sessions))])"

subsection \<open>searchVenues\<close>

definition searchVenues_filter :: "string option \<Rightarrow> string option \<Rightarrow> string" where
  \<open>searchVenues_filter venueName city =
     ''_type == "venue"''
     @ whenTruthy venueName (\<lambda>n. '' && name match "*'' @ n @ ''*"'')
     @ whenTruthy city (\<lambda>c. '' && address.city match "*'' @ c @ ''*"'')\<close>

definition venuesQuery :: "string option \<Rightarrow> string option \<Rightarrow> query" where
  "venuesQuery venueName city =
     Groq (template
       [''*['' @ searchVenues_filter venueName city @ ''] | order(name asc) [0...10] {'',
        ''      _id,'',
        ''      name,'',
        ''      description,'',
        ''      address,'',
        ''      amenities'',
        ''    }''])"

definition searchVenues :: "'d store \<Rightarrow> string option \<Rightarrow> string option \<Rightarrow> (fetch, 'd object) io" where
  "searchVenues store venueName city =
     (if \<not> truthy venueName \<and> \<not> truthy city
      then andThen (client_fetch store (Imported AI_SEARCH_VENUES_QUERY) [])
             (\<lambda>venues.
                returns
                  [(''count'', JNumber (fromNat (length venues))),
                   (''venues'', JArray (map JDoc venues))])
      else andThen (client_fetch store (venuesQuery venueName city) [])
             (\<lambda>venues.
                returns
                  [(''count'', JNumber (fromNat (length venues))),
                   (''venues'', JArray (map JDoc venues))]))"

subsection \<open>getCategories\<close>

definition getCategories :: "'d store \<Rightarrow> (fetch, 'd object) io" where
  "getCategories store =
     andThen (client_fetch store (Imported AI_CATEGORIES_QUERY) [])
       (\<lambda>categories.
          returns
            [(''count'', JNumber (fromNat (length categories))),
             (''categories'', JArray (map JDoc categories))])"

subsection \<open>getSubscriptionInfo\<close>

definition getSubscriptionInfo :: "(fetch, unit object) io" where
  "getSubscriptionInfo =
     returns
       [(''tiers'',
           JArray
             [JObject
                [(''name'', JString ''Basic''),
                 (''monthlyPrice'', JNumber (Finite 29)),
                 (''annualPrice'', JNumber (Finite 290)),
                 (''classesPerMonth'', JNumber (Finite 5)),
                 (''classAccess'', JString ''Basic-tier classes only''),
                 (''perClassCost'', JString ''$5.80'')],
              JObject
                [(''name'', JString ''Performance''),
                 (''monthlyPrice'', JNumber (Finite 59)),
                 (''annualPrice'', JNumber (Finite 590)),
                 (''classesPerMonth'', JNumber (Finite 12)),
                 (''classAccess'', JString ''Basic + Performance classes''),
                 (''perClassCost'', JString ''$4.92'')],
              JObject
                [(''name'', JString ''Champion''),
                 (''monthlyPrice'', JNumber (Finite 99)),
                 (''annualPrice'', JNumber (Finite 990)),
                 (''classesPerMonth'', JString ''Unlimited''),
                 (''classAccess'', JString ''All classes''),
                 (''perClassCost'', JString ''Best value for 8+ classes/month'')]]),
        (''freeTrialDays'', JNumber (Finite 3)),
        (''annualDiscount'', JString ''17%'')]"

subsection \<open>getRecommendations\<close>

datatype goal = strength | flexibility | cardio | relaxation | weight_loss

fun goal_name :: "goal \<Rightarrow> string" where
  "goal_name strength = ''strength''"
| "goal_name flexibility = ''flexibility''"
| "goal_name cardio = ''cardio''"
| "goal_name relaxation = ''relaxation''"
| "goal_name weight_loss = ''weight-loss''"

definition goalCategories :: "(string \<times> string list) list" where
  "goalCategories =
     [(''strength'', [''HIIT'', ''Strength'', ''CrossFit'']),
      (''flexibility'', [''Yoga'', ''Pilates'', ''Stretching'']),
      (''cardio'', [''Cycling'', ''Running'', ''Dance'', ''HIIT'']),
      (''relaxation'', [''Yoga'', ''Meditation'', ''Pilates'']),
      (''weight-loss'', [''HIIT'', ''Cycling'', ''Boot Camp''])]"

definition tierLevels :: "tier \<Rightarrow> string list" where
  "tierLevels tierLevel =
     (if tierLevel = champion then [''basic'', ''performance'', ''champion'']
      else if tierLevel = performance then [''basic'', ''performance'']
      else [''basic''])"

text \<open>The clause of the preferred duration. The sum and the difference are doubles, and
  the template literal pastes their text: \<open>toText\<close> is the language's conversion of a
  number to a string, a parameter of the model.\<close>

definition durationClause :: "(number \<Rightarrow> string) \<Rightarrow> number option \<Rightarrow> string" where
  "durationClause toText preferredDuration =
     (case preferredDuration of
        None \<Rightarrow> []
      | Some d \<Rightarrow>
          if \<not> truthyNumber (Some d) then []
          else '' && duration <= '' @ toText (js_add d (Finite 15))
               @ '' && duration >= '' @ toText (js_sub d (Finite 15)))"

definition getRecommendations_filter ::
  "(number \<Rightarrow> string) \<Rightarrow> number option \<Rightarrow> tier option \<Rightarrow> string" where
  "getRecommendations_filter toText preferredDuration tierLevel =
     upcomingActivity
     @ (case tierLevel of
          None \<Rightarrow> []
        | Some t \<Rightarrow> '' && tierLevel in '' @ JSON_stringify (tierLevels t))
     @ durationClause toText preferredDuration"

definition recommendationsQuery ::
  "(number \<Rightarrow> string) \<Rightarrow> number option \<Rightarrow> tier option \<Rightarrow> query" where
  "recommendationsQuery toText preferredDuration tierLevel =
     Groq (template
       [''*['' @ getRecommendations_filter toText preferredDuration tierLevel
          @ ''] | order(name asc) [0...20] {'',
        ''      _id,'',
        ''      name,'',
        ''      instructor,'',
        ''      duration,'',
        ''      tierLevel,'',
        ''      category->{name}'',
        ''    }''])"

text \<open>\<^verbatim>\<open>xs.some(p)\<close> and \<^verbatim>\<open>xs.filter(p)\<close> for a callback that may throw: the elements
  are visited in order, and the first exception ends the visit.\<close>

fun someM :: "('a \<Rightarrow> exn + bool) \<Rightarrow> 'a list \<Rightarrow> exn + bool" where
  "someM p [] = Inr False"
| "someM p (x # xs) =
     (case p x of
        Inl e \<Rightarrow> Inl e
      | Inr found \<Rightarrow> if found then Inr True else someM p xs)"

fun filterM :: "('a \<Rightarrow> exn + bool) \<Rightarrow> 'a list \<Rightarrow> exn + 'a list" where
  "filterM p [] = Inr []"
| "filterM p (x # xs) =
     (case p x of
        Inl e \<Rightarrow> Inl e
      | Inr keep \<Rightarrow>
          (case filterM p xs of
             Inl e \<Rightarrow> Inl e
           | Inr kept \<Rightarrow> Inr (if keep then x # kept else kept)))"

text \<open>The inner callback,
  \<^verbatim>\<open>(c) => a.category?.name.toLowerCase().includes(c.toLowerCase())\<close>: without a
  category the chain stops at \<^verbatim>\<open>?.\<close> and gives \<^verbatim>\<open>undefined\<close>, which is falsy; with a
  category, calling \<^verbatim>\<open>toLowerCase\<close> on a name that is not there is a TypeError.\<close>

definition targetMatches :: "'m activity_scheme \<Rightarrow> string \<Rightarrow> exn + bool" where
  "targetMatches a c =
     (case category a of
        None \<Rightarrow> Inr False
      | Some cat \<Rightarrow>
          (case name cat of
             None \<Rightarrow> Inl TypeError
           | Some n \<Rightarrow> Inr (js_includes (toLowerCase n) (toLowerCase c))))"

text \<open>The callback of the goal filter:
  \<^verbatim>\<open>a.category && targetCategories.some(...)\<close>.\<close>

definition inTargetCategories :: "string list \<Rightarrow> 'm activity_scheme \<Rightarrow> exn + bool" where
  "inTargetCategories targetCategories a =
     (case category a of
        None \<Rightarrow> Inr False
      | Some cat \<Rightarrow> someM (targetMatches a) targetCategories)"

definition recommend ::
  "goal option \<Rightarrow> 'm activity_scheme list \<Rightarrow> exn + 'm activity_scheme list" where
  "recommend fitnessGoal activities =
     (case fitnessGoal of
        None \<Rightarrow> Inr activities
      | Some g \<Rightarrow>
          (case map_of goalCategories (goal_name g) of
             None \<Rightarrow> Inr activities
           | Some targetCategories \<Rightarrow>
               (case filterM (inTargetCategories targetCategories) activities of
                  Inl e \<Rightarrow> Inl e
                | Inr recommended \<Rightarrow>
                    if length recommended = 0 then Inr activities else Inr recommended)))"

definition getRecommendations ::
  "'m activity_scheme store \<Rightarrow> (number \<Rightarrow> string) \<Rightarrow> goal option \<Rightarrow> number option \<Rightarrow> tier option
     \<Rightarrow> (fetch, 'm activity_scheme object) io" where
  "getRecommendations store toText fitnessGoal preferredDuration tierLevel =
     andThen (client_fetch store (recommendationsQuery toText preferredDuration tierLevel) [])
       (\<lambda>activities.
          andThen ([], recommend fitnessGoal activities)
            (\<lambda>recommended.
               returns
                 [(''count'', JNumber (fromNat (min (length recommended) 5))),
                  (''recommendations'', JArray (map JDoc (take 5 recommended))),
                  (''basedOn'',
                     JObject
                       [(''fitnessGoal'',
                           (case fitnessGoal of
                              None \<Rightarrow> JUndefined
                            | Some g \<Rightarrow> JString (goal_name g))),
                        (''preferredDuration'',
                           (case preferredDuration of
                              None \<Rightarrow> JUndefined
                            | Some d \<Rightarrow> JNumber d)),
                        (''tierLevel'',
                           (case tierLevel of
                              None \<Rightarrow> JUndefined
                            | Some t \<Rightarrow> JString (tier_name t)))])]))"

subsection \<open>getUserBookings\<close>

record booking_activity =
  class_name :: "string option"
  class_instructor :: "string option"
  class_duration :: "number option"

record booking_session =
  classSession_id :: string
  classSession_startTime :: "string option"
  classSession_activity :: "booking_activity option"
  classSession_venue :: "session_venue option"

record BookingFromQuery =
  booking_id :: string
  status :: "string option"
  createdAt :: "string option"
  attendedAt :: "string option"
  classSession :: "booking_session option"

datatype bookings_type = upcoming | past | all_bookings

fun bookings_type_name :: "bookings_type \<Rightarrow> string" where
  "bookings_type_name upcoming = ''upcoming''"
| "bookings_type_name past = ''past''"
| "bookings_type_name all_bookings = ''all''"

text \<open>The default of the parameter: \<^verbatim>\<open>type = "upcoming"\<close>.\<close>

definition typeOrDefault :: "bookings_type option \<Rightarrow> bookings_type" where
  "typeOrDefault requested = (case requested of None \<Rightarrow> upcoming | Some t \<Rightarrow> t)"

text \<open>\<^verbatim>\<open>type === "past" ? ... : type === "all" ? ... : ...\<close>.\<close>

definition bookingsQuery :: "bookings_type \<Rightarrow> query" where
  "bookingsQuery type =
     (if type = past then Imported AI_USER_PAST_BOOKINGS_QUERY
      else if type = all_bookings then Imported AI_USER_ALL_BOOKINGS_QUERY
      else Imported AI_USER_UPCOMING_BOOKINGS_QUERY)"

definition bookingItem :: "BookingFromQuery \<Rightarrow> BookingFromQuery jsval" where
  "bookingItem b =
     JObject
       [(''id'', JString (booking_id b)),
        (''sessionId'',
           (case classSession b of None \<Rightarrow> JNull | Some cs \<Rightarrow> JString (classSession_id cs))),
        (''status'', stringOrNull (status b)),
        (''bookedAt'', stringOrNull (createdAt b)),
        (''attendedAt'', stringOrNull (attendedAt b)),
        (''class'', stringOrNull (Option.bind (Option.bind (classSession b) classSession_activity) class_name)),
        (''instructor'',
           stringOrNull (Option.bind (Option.bind (classSession b) classSession_activity) class_instructor)),
        (''duration'',
           numberOrNull (Option.bind (Option.bind (classSession b) classSession_activity) class_duration)),
        (''dateTime'', stringOrNull (Option.bind (classSession b) classSession_startTime)),
        (''venue'', stringOrNull (Option.bind (Option.bind (classSession b) classSession_venue) venue_name)),
        (''city'', stringOrNull (Option.bind (Option.bind (classSession b) classSession_venue) venue_city))]"

definition getUserBookings ::
  "BookingFromQuery store \<Rightarrow> bookings_type option \<Rightarrow> string option
     \<Rightarrow> (fetch, BookingFromQuery object) io" where
  "getUserBookings store requested clerkId =
     (let type = typeOrDefault requested
      in case clerkId of
           None \<Rightarrow>
             returns
               [(''error'', JString ''User not authenticated''),
                (''count'', JNumber (Finite 0)),
                (''bookings'', JArray [])]
         | Some cid \<Rightarrow>
             if cid = [] then
               returns
                 [(''error'', JString ''User not authenticated''),
                  (''count'', JNumber (Finite 0)),
                  (''bookings'', JArray [])]
             else
               (let query = bookingsQuery type
                in andThen (client_fetch store query [(''clerkId'', cid)])
                     (\<lambda>bookings.
                        returns
                          [(''count'', JNumber (fromNat (length bookings))),
                           (''type'', JString (bookings_type_name type)),
                           (''bookings'', JArray (map bookingItem bookings))])))"

section \<open>Profile actions (lib/actions/profile.ts)\<close>

record ProfileResult =
  success :: bool
  message :: "string option"
  error :: "string option"

record LocationData =
  lat :: "number option"
  lng :: "number option"
  address :: "string option"

record ProfilePreferences =
  location :: "LocationData option"
  searchRadius :: "number option"

definition isValidLocation :: "LocationData option \<Rightarrow> bool" where
  "isValidLocation loc =
     (case loc of
        None \<Rightarrow> False
      | Some l \<Rightarrow>
          lat l \<noteq> None \<and> lng l \<noteq> None
          \<and> (case address l of None \<Rightarrow> False | Some a \<Rightarrow> length (trim a) > 0))"

definition isValidRadius :: "number option \<Rightarrow> bool" where
  "isValidRadius radius =
     (case radius of None \<Rightarrow> False | Some r \<Rightarrow> isFinite r \<and> ge_one r)"

text \<open>The object given to \<^verbatim>\<open>.set(...)\<close>:
  \<^verbatim>\<open>{ location: { lat, lng, address }, searchRadius }\<close>.\<close>

record preference_patch =
  patch_location :: LocationData
  patch_searchRadius :: "number option"

text \<open>What the actions read of the profile document the store finds: its \<^verbatim>\<open>_id\<close>.\<close>

record userProfile =
  profile_id :: "string option"

text \<open>The calls an action makes to the outside, with their arguments.\<close>

datatype effect =
    Auth
  | GetOrCreateUserProfile string
  | FetchUserProfile string
  | PatchSetCommit string preference_patch
  | ClerkClient
  | UpdateUserMetadata string "(string \<times> bool) list"
  | RevalidatePath string
  | ConsoleError string

text \<open>What the outside answers: the identity provider, the profile helper of
  \<^verbatim>\<open>@/lib/utils/user-profile\<close>, the store and the framework. Each call returns or
  throws.\<close>

record world =
  auth :: "exn + string option"
  getOrCreateUserProfile :: "string \<Rightarrow> exn + string"
  fetchUserProfile :: "string \<Rightarrow> exn + userProfile option"
  commit :: "string \<Rightarrow> preference_patch \<Rightarrow> exn + unit"
  clerkClient :: "exn + unit"
  updateUserMetadata :: "string \<Rightarrow> exn + unit"
  revalidatePath :: "string \<Rightarrow> exn + unit"

definition failure :: "string \<Rightarrow> ProfileResult" where
  "failure msg = \<lparr>success = False, message = None, error = Some msg\<rparr>"

text \<open>Reading \<^verbatim>\<open>location.lat\<close> of an absent location would be a TypeError; the
  guard before it excludes that.\<close>

definition preferencePatch :: "ProfilePreferences \<Rightarrow> (effect, preference_patch) io" where
  "preferencePatch preferences =
     (case location preferences of
        None \<Rightarrow> ([], Inl TypeError)
      | Some l \<Rightarrow>
          returns
            \<lparr>patch_location = \<lparr>lat = lat l, lng = lng l, address = address l\<rparr>,
             patch_searchRadius = searchRadius preferences\<rparr>)"

definition patchSetCommit :: "world \<Rightarrow> string \<Rightarrow> ProfilePreferences \<Rightarrow> (effect, unit) io" where
  "patchSetCommit w docId preferences =
     andThen (preferencePatch preferences)
       (\<lambda>setFields. call (PatchSetCommit docId setFields) (commit w docId setFields))"

definition revalidateAll :: "world \<Rightarrow> (effect, unit) io" where
  "revalidateAll w =
     andThen (call (RevalidatePath ''/'') (revalidatePath w ''/''))
       (\<lambda>_. andThen (call (RevalidatePath ''/classes'') (revalidatePath w ''/classes''))
          (\<lambda>_. call (RevalidatePath ''/profile'') (revalidatePath w ''/profile'')))"

text \<open>The body of the \<^verbatim>\<open>try\<close> block of \<^verbatim>\<open>completeOnboarding\<close>. The case
  distinction after the three guards only names the user id, which the first guard has
  shown to be there: its first branch is never taken.\<close>

definition completeOnboarding_try :: "world \<Rightarrow> ProfilePreferences \<Rightarrow> (effect, ProfileResult) io" where
  "completeOnboarding_try w preferences =
     andThen (call Auth (auth w))
       (\<lambda>userId.
          if \<not> truthy userId then returns (failure ''Unauthorized'')
          else if \<not> isValidLocation (location preferences) then
            returns (failure ''Location is required'')
          else if \<not> isValidRadius (searchRadius preferences) then
            returns (failure ''Search radius is required'')
          else
            (case userId of
               None \<Rightarrow> returns (failure ''Unauthorized'')
             | Some uid \<Rightarrow>
                 andThen (call (GetOrCreateUserProfile uid) (getOrCreateUserProfile w uid))
                   (\<lambda>userProfileId.
                      andThen (patchSetCommit w userProfileId preferences)
                        (\<lambda>_. andThen (call ClerkClient (clerkClient w))
                           (\<lambda>_. andThen
                                  (call (UpdateUserMetadata uid [(''hasOnboarded'', True)])
                                     (updateUserMetadata w uid))
                              (\<lambda>_. andThen (revalidateAll w)
                                 (\<lambda>_. returns
                                        \<lparr>success = True,
                                         message = Some ''Onboarding completed!'',
                                         error = None\<rparr>)))))))"

definition completeOnboarding :: "world \<Rightarrow> ProfilePreferences \<Rightarrow> (effect, ProfileResult) io" where
  "completeOnboarding w preferences =
     tryCatch (completeOnboarding_try w preferences)
       (\<lambda>err. andThen (call (ConsoleError ''Onboarding error:'') (Inr ()))
          (\<lambda>_. returns (failure ''Failed to complete onboarding'')))"

text \<open>The body of the \<^verbatim>\<open>try\<close> block of \<^verbatim>\<open>updateLocationPreferences\<close>.
  \<^verbatim>\<open>!userProfile?._id\<close> holds for no document, and for one with no or an empty id.\<close>

definition updateLocationPreferences_try ::
  "world \<Rightarrow> ProfilePreferences \<Rightarrow> (effect, ProfileResult) io" where
  "updateLocationPreferences_try w preferences =
     andThen (call Auth (auth w))
       (\<lambda>userId.
          if \<not> truthy userId then returns (failure ''Unauthorized'')
          else if \<not> isValidLocation (location preferences) then
            returns (failure ''Location is required'')
          else if \<not> isValidRadius (searchRadius preferences) then
            returns (failure ''Search radius is required'')
          else
            (case userId of
               None \<Rightarrow> returns (failure ''Unauthorized'')
             | Some uid \<Rightarrow>
                 andThen (call (FetchUserProfile uid) (fetchUserProfile w uid))
                   (\<lambda>found.
                      if \<not> truthy (Option.bind found profile_id) then
                        returns (failure ''User profile not found'')
                      else
                        (case Option.bind found profile_id of
                           None \<Rightarrow> returns (failure ''User profile not found'')
                         | Some docId \<Rightarrow>
                             andThen (patchSetCommit w docId preferences)
                               (\<lambda>_. andThen (revalidateAll w)
                                  (\<lambda>_. returns
                                         \<lparr>success = True,
                                          message = Some ''Preferences updated!'',
                                          error = None\<rparr>))))))"

definition updateLocationPreferences ::
  "world \<Rightarrow> ProfilePreferences \<Rightarrow> (effect, ProfileResult) io" where
  "updateLocationPreferences w preferences =
     tryCatch (updateLocationPreferences_try w preferences)
       (\<lambda>err. andThen (call (ConsoleError ''Update preferences error:'') (Inr ()))
          (\<lambda>_. returns (failure ''Failed to update preferences'')))"

text \<open>The calls that write to the store: the patch, and the helper that may create the
  profile document.\<close>

fun isWrite :: "effect \<Rightarrow> bool" where
  "isWrite (PatchSetCommit docId setFields) = True"
| "isWrite (GetOrCreateUserProfile uid) = True"
| "isWrite e = False"

text \<open>The patches an action sent to the store, in order.\<close>

fun patches :: "effect list \<Rightarrow> (string \<times> preference_patch) list" where
  "patches [] = []"
| "patches (PatchSetCommit docId setFields # t) = (docId, setFields) # patches t"
| "patches (e # t) = patches t"

section \<open>Reading a response\<close>

text \<open>The field \<open>key\<close> of the object a tool returned; \<open>None\<close> when the object has no
  such field, or when the tool threw.\<close>

definition responseField :: "string \<Rightarrow> ('e, 'd object) io \<Rightarrow> 'd jsval option" where
  "responseField key run = (case outcome run of Inl e \<Rightarrow> None | Inr resp \<Rightarrow> map_of resp key)"

definition returned :: "('e, 'a) io \<Rightarrow> bool" where
  "returned run = (case outcome run of Inl e \<Rightarrow> False | Inr a \<Rightarrow> True)"

fun itemField :: "string \<Rightarrow> 'd jsval \<Rightarrow> 'd jsval option" where
  "itemField key (JObject kvs) = map_of kvs key"
| "itemField key v = None"

text \<open>The tool returned an object whose \<open>count\<close> is a number, whose field \<open>key\<close> is a
  list, and the number is the length of the list.\<close>

definition countsList :: "string \<Rightarrow> ('e, 'd object) io \<Rightarrow> bool" where
  "countsList key run =
     (case (responseField ''count'' run, responseField key run) of
        (Some (JNumber n), Some (JArray items)) \<Rightarrow> returned run \<and> n = fromNat (length items)
      | _ \<Rightarrow> False)"

text \<open>The tool returned an object whose field \<open>key\<close> is a list of at most \<open>n\<close> items.\<close>

definition listWithin :: "nat \<Rightarrow> string \<Rightarrow> ('e, 'd object) io \<Rightarrow> bool" where
  "listWithin n key run =
     (case responseField key run of
        Some (JArray items) \<Rightarrow> returned run \<and> length items \<le> n
      | _ \<Rightarrow> False)"

text \<open>Every category that an activity of the list has, has a name.\<close>

definition categoriesNamed :: "'m activity_scheme list \<Rightarrow> bool" where
  "categoriesNamed activities =
     list_all (\<lambda>a. case category a of None \<Rightarrow> True | Some c \<Rightarrow> name c \<noteq> None) activities"

text \<open>The goal filter as a predicate, for activities whose categories have names.\<close>

definition matchesTargets :: "string list \<Rightarrow> 'm activity_scheme \<Rightarrow> bool" where
  "matchesTargets targetCategories a =
     (case Option.bind (category a) name of
        None \<Rightarrow> False
      | Some n \<Rightarrow> list_ex (\<lambda>c. js_includes (toLowerCase n) (toLowerCase c)) targetCategories)"

text \<open>A number that is not negative, and a number that is whole.\<close>

fun nonNegative :: "number \<Rightarrow> bool" where
  "nonNegative (Finite r) = (0 \<le> r)"
| "nonNegative PosInfinity = True"
| "nonNegative n = False"

fun isWhole :: "number \<Rightarrow> bool" where
  "isWhole (Finite r) = (r = of_int \<lfloor>r\<rfloor>)"
| "isWhole n = False"


text \<open>A rule whose \<^verbatim>\<open>X-Frame-Options\<close> forbids every framing of the page.\<close>

definition deniesFraming :: "route_headers \<Rightarrow> bool" where
  "deniesFraming r = (map_of (headers r) ''X-Frame-Options'' = Some ''DENY'')"

section \<open>Sample stores, worlds and documents\<close>

definition answering :: "'d list \<Rightarrow> 'd store" where
  "answering docs = (\<lambda>q params. Inr docs)"

definition rejecting :: "'d store" where
  "rejecting = (\<lambda>q params. Inl (Rejected ''store unreachable''))"

definition sampleSessions :: "SessionFromQuery list" where
  "sampleSessions =
     [\<lparr>session_id = ''s1'', startTime = Some ''2026-01-05T09:00:00Z'',
       maxCapacity = Some (Finite 10), currentBookings = Some (Finite 3),
       session_activity = None, session_venue = None\<rparr>,
      \<lparr>session_id = ''s2'', startTime = None,
       maxCapacity = None, currentBookings = Some (Finite 2),
       session_activity = None, session_venue = None\<rparr>,
      \<lparr>session_id = ''s3'', startTime = Some '' '',
       maxCapacity = Some (Finite 5), currentBookings = Some (Finite 8),
       session_activity = None, session_venue = None\<rparr>,
      \<lparr>session_id = ''s4'', startTime = None,
       maxCapacity = Some (Finite 4), currentBookings = None,
       session_activity = None, session_venue = None\<rparr>]"

text \<open>A session of capacity 10.5 with 3 bookings.\<close>

definition halfPlaceSession :: SessionFromQuery where
  "halfPlaceSession =
     \<lparr>session_id = ''s5'', startTime = None,
      maxCapacity = Some (Finite (21 / 2)), currentBookings = Some (Finite 3),
      session_activity = None, session_venue = None\<rparr>"

definition sampleActivities :: "activity list" where
  "sampleActivities =
     [\<lparr>category = Some \<lparr>name = Some ''Hot Yoga''\<rparr>\<rparr>,
      \<lparr>category = None\<rparr>,
      \<lparr>category = Some \<lparr>name = Some ''Pilates''\<rparr>\<rparr>]"

text \<open>An activity whose category has no name.\<close>

definition namelessCategory :: activity where
  "namelessCategory = \<lparr>category = Some \<lparr>name = None\<rparr>\<rparr>"

definition sampleBookings :: "BookingFromQuery list" where
  "sampleBookings =
     [\<lparr>booking_id = ''b1'', status = Some ''confirmed'', createdAt = None, attendedAt = None,
       classSession = None\<rparr>]"

text \<open>The text of the numbers 30 and 60, as much of the conversion of a number to a string
  as the samples need.\<close>

definition textOf30And60 :: "number \<Rightarrow> string" where
  "textOf30And60 n = (if n = Finite 30 then ''30'' else if n = Finite 60 then ''60'' else [])"

text \<open>A world in which the user \<open>uid\<close> is signed in and every call returns.\<close>

definition signedIn :: "string \<Rightarrow> world" where
  "signedIn uid =
     \<lparr>auth = Inr (Some uid),
      getOrCreateUserProfile = (\<lambda>u. Inr (''profile-'' @ u)),
      fetchUserProfile = (\<lambda>u. Inr (Some \<lparr>profile_id = Some (''profile-'' @ u)\<rparr>)),
      commit = (\<lambda>docId setFields. Inr ()),
      clerkClient = Inr (),
      updateUserMetadata = (\<lambda>u. Inr ()),
      revalidatePath = (\<lambda>path. Inr ())\<rparr>"

definition samplePreferences :: ProfilePreferences where
  "samplePreferences =
     \<lparr>location = Some \<lparr>lat = Some (Finite (1 / 2)), lng = Some (Finite (- 3)),
                        address = Some ''1 Main Street''\<rparr>,
      searchRadius = Some (Finite 5)\<rparr>"

section \<open>Calls and their answers\<close>

lemma andThen_call_Inr: "andThen (call ev (Inr a)) f = (ev # calls (f a), outcome (f a))"
  by (simp add: andThen_def call_def)

lemma andThen_call_Inl: "andThen (call ev (Inl e)) f = ([ev], Inl e)"
  by (simp add: andThen_def call_def)

lemma andThen_returns: "andThen (returns a) f = f a"
  by (simp add: andThen_def returns_def)

lemma andThen_value: "andThen ([], Inr a) f = f a"
  by (simp add: andThen_def)

lemma andThen_thrown: "andThen ([], Inl e) f = ([], Inl e)"
  by (simp add: andThen_def)

lemma outcome_call: "outcome (call ev r) = r"
  by (simp add: call_def)

lemma fetch_answered:
  "store q ps = Inr docs \<Longrightarrow>
   andThen (client_fetch store q ps) f = (Fetch q ps # calls (f docs), outcome (f docs))"
  by (simp add: client_fetch_def andThen_call_Inr)

lemma fetch_rejected:
  "store q ps = Inl e \<Longrightarrow> andThen (client_fetch store q ps) f = ([Fetch q ps], Inl e)"
  by (simp add: client_fetch_def andThen_call_Inl)

lemma tryCatch_thrown: "outcome m = Inl e \<Longrightarrow> outcome (tryCatch m h) = outcome (h e)"
  by (simp add: tryCatch_def)

lemma handler_outcome: "outcome (andThen (call ev (Inr ())) (\<lambda>_. returns r)) = Inr r"
  by (simp add: andThen_call_Inr returns_def)

section \<open>Rounding to a double\<close>

text \<open>A value with a significand below \<open>2 ^ 53\<close> and an exponent in the range of the
  doubles is a double, and rounding leaves it as it is.\<close>

lemma roundHalfEven_of_int: "roundHalfEven (of_int k) = k"
  by (simp add: roundHalfEven_def)

lemma binaryExponent_lower:
  assumes "0 < a"
  shows "2 powi (binaryExponent a) \<le> a"
proof -
  obtain p q where pq: "quotient_of a = (p, q)"
    by (cases "quotient_of a")
  then have q: "0 < q" and a: "a = of_int p / of_int q"
    using quotient_of_denom_pos quotient_of_div by auto
  with assms have p: "0 < p"
    by (simp add: zero_less_divide_iff)
  let ?d = "bitlen p - bitlen q"
  show ?thesis
  proof (cases "(2::rat) powi ?d \<le> a")
    case True
    then show ?thesis
      by (simp add: binaryExponent_def pq)
  next
    case False
    have lo: "(2::int) ^ nat (bitlen p - 1) \<le> p" and hi: "q < 2 ^ nat (bitlen q)"
      using bitlen_bounds [OF p] bitlen_bounds [OF q] by simp_all
    have bp: "0 < bitlen p" and bq: "0 < bitlen q"
      using p q bitlen_nonneg [of p] bitlen_nonneg [of q] bitlen_eq_zero_iff [of p] bitlen_eq_zero_iff [of q]
      by linarith+
    have "(2::rat) powi (?d - 1) = 2 powi (bitlen p - 1) / 2 powi bitlen q"
      by (simp add: power_int_diff)
    also have "\<dots> = 2 ^ nat (bitlen p - 1) / 2 ^ nat (bitlen q)"
      using bp bq by (simp add: power_int_def)
    also have "\<dots> \<le> of_int p / 2 ^ nat (bitlen q)"
    proof -
      have "(of_int (2 ^ nat (bitlen p - 1)) :: rat) \<le> of_int p"
        using lo by (simp only: of_int_le_iff)
      then show ?thesis
        by (simp add: divide_right_mono)
    qed
    also have "\<dots> \<le> of_int p / of_int q"
    proof -
      have "(of_int q :: rat) \<le> of_int (2 ^ nat (bitlen q))"
        using hi by (simp only: of_int_le_iff)
      then show ?thesis
        using p q by (simp add: frac_le)
    qed
    finally have "(2::rat) powi (?d - 1) \<le> a"
      by (simp add: a)
    with False show ?thesis
      by (simp add: binaryExponent_def pq)
  qed
qed


lemma toDouble_exact:
  assumes m: "\<bar>m\<bar> < 2 ^ 53" and j: "- 1074 \<le> j" "j \<le> 971"
  shows "toDouble (of_int m * 2 powi j) = Finite (of_int m * 2 powi j)"
proof (cases "m = 0")
  case True
  then show ?thesis
    by (simp add: toDouble_def)
next
  case False
  let ?x = "of_int m * (2::rat) powi j"
  have pos: "0 < (2::rat) powi k" for k
    by (simp add: zero_less_power_int)
  have x0: "?x \<noteq> 0"
    using False by simp
  have absx: "\<bar>?x\<bar> = of_int \<bar>m\<bar> * 2 powi j"
    by (simp add: abs_mult)
  have apos: "0 < \<bar>?x\<bar>"
    using x0 by simp
  have small: "\<bar>?x\<bar> < 2 powi (53 + j)"
  proof -
    have "(of_int \<bar>m\<bar> :: rat) < of_int (2 ^ 53)"
      using m by (simp only: of_int_less_iff)
    then have "of_int \<bar>m\<bar> * (2::rat) powi j < 2 ^ 53 * 2 powi j"
      using pos [of j] by simp
    also have "\<dots> = 2 powi (53 + j)"
      by (simp add: power_int_add)
    finally show ?thesis
      by (simp only: absx)
  qed
  let ?e0 = "binaryExponent \<bar>?x\<bar>"
  have below: "(2::rat) powi ?e0 < 2 powi (53 + j)"
    using binaryExponent_lower [OF apos] small by linarith
  have e0: "?e0 < 53 + j"
  proof (rule ccontr)
    assume "\<not> ?e0 < 53 + j"
    then have "53 + j \<le> ?e0"
      by simp
    then have "(2::rat) powi (53 + j) \<le> 2 powi ?e0"
      by (rule power_int_increasing) simp
    with below show False
      by linarith
  qed
  let ?e = "max ?e0 (- 1022)"
  have e: "?e - 52 \<le> j"
    using e0 j by simp
  let ?q = "(2::rat) powi (?e - 52)"
  let ?k = "m * 2 ^ nat (j - (?e - 52))"
  have "?x / ?q = of_int m * 2 powi (j - (?e - 52))"
    by (simp add: power_int_diff)
  also have "\<dots> = of_int ?k"
    using e by (simp add: power_int_def)
  finally have quot: "?x / ?q = of_int ?k" .
  have restored: "of_int ?k * ?q = ?x"
  proof -
    have "?q \<noteq> 0"
      using pos [of "?e - 52"] by simp
    then have "(?x / ?q) * ?q = ?x"
      by simp
    then show ?thesis
      by (simp only: quot)
  qed
  have "\<bar>?x\<bar> < 2 powi 1024"
  proof -
    have "53 + j \<le> 1024"
      using j by simp
    then have "(2::rat) powi (53 + j) \<le> 2 powi 1024"
      by (rule power_int_increasing) simp
    with small show ?thesis
      by linarith
  qed
  then have fin: "\<not> 2 powi 1024 \<le> \<bar>?x\<bar>"
    by simp
  show ?thesis
    unfolding toDouble_def Let_def
    using x0 fin by (simp only: quot roundHalfEven_of_int restored if_False)
qed

lemma toDouble_of_int: "\<bar>m\<bar> < 2 ^ 53 \<Longrightarrow> toDouble (of_int m) = Finite (of_int m)"
  using toDouble_exact [of m 0] by simp

lemma toDouble_half: "\<bar>m\<bar> < 2 ^ 53 \<Longrightarrow> toDouble (of_int m / 2) = Finite (of_int m / 2)"
  using toDouble_exact [of m "- 1"] by simp

lemma toDouble_not_NaN: "toDouble x \<noteq> NaN"
  by (simp add: toDouble_def Let_def)

section \<open>The goal filter\<close>

text \<open>When every category has its name, no callback throws, and the goal filter is the
  filter of a predicate.\<close>

lemma someM_named:
  assumes "Option.bind (category a) name = Some n"
  shows "someM (targetMatches a) targets
     = Inr (list_ex (\<lambda>c. js_includes (toLowerCase n) (toLowerCase c)) targets)"
proof -
  from assms obtain cat where "category a = Some cat" and "name cat = Some n"
    by (cases "category a") simp_all
  then have "targetMatches a c = Inr (js_includes (toLowerCase n) (toLowerCase c))" for c
    by (simp add: targetMatches_def)
  then show ?thesis
    by (induction targets) simp_all
qed

lemma inTargetCategories_named:
  "(case category a of None \<Rightarrow> True | Some c \<Rightarrow> name c \<noteq> None) \<Longrightarrow>
   inTargetCategories targets a = Inr (matchesTargets targets a)"
  by (auto simp add: inTargetCategories_def matchesTargets_def someM_named split: option.splits)

lemma filterM_named:
  "categoriesNamed activities \<Longrightarrow>
   filterM (inTargetCategories targets) activities
     = Inr (filter (matchesTargets targets) activities)"
  by (induction activities) (simp_all add: categoriesNamed_def inTargetCategories_named)

lemma goalCategories_total: "\<exists>targets. map_of goalCategories (goal_name g) = Some targets"
  by (cases g) (simp_all add: goalCategories_def)

lemma recommend_named:
  "categoriesNamed activities \<Longrightarrow> map_of goalCategories (goal_name g) = Some targets \<Longrightarrow>
   recommend (Some g) activities
     = Inr (if filter (matchesTargets targets) activities = [] then activities
            else filter (matchesTargets targets) activities)"
  by (simp add: recommend_def filterM_named)

lemma recommend_without_goal: "recommend None activities = Inr activities"
  by (simp add: recommend_def)

lemma recommend_returns:
  assumes "fitnessGoal = None \<or> categoriesNamed activities"
  shows "\<exists>recommended. recommend fitnessGoal activities = Inr recommended"
proof (cases fitnessGoal)
  case None
  then show ?thesis
    by (simp add: recommend_without_goal)
next
  case (Some g)
  with assms have named: "categoriesNamed activities"
    by simp
  obtain targets where "map_of goalCategories (goal_name g) = Some targets"
    using goalCategories_total by blast
  with named Some show ?thesis
    by (simp add: recommend_named)
qed

lemma getRecommendations_response:
  "store (recommendationsQuery toText preferredDuration tierLevel) [] = Inr activities \<Longrightarrow>
   recommend fitnessGoal activities = Inr recommended \<Longrightarrow>
   responseField ''recommendations''
       (getRecommendations store toText fitnessGoal preferredDuration tierLevel)
     = Some (JArray (map JDoc (take 5 recommended)))
   \<and> responseField ''count''
       (getRecommendations store toText fitnessGoal preferredDuration tierLevel)
     = Some (JNumber (fromNat (min (length recommended) 5)))
   \<and> returned (getRecommendations store toText fitnessGoal preferredDuration tierLevel)"
  by (simp add: getRecommendations_def fetch_answered andThen_value responseField_def
      returned_def returns_def)

lemma getRecommendations_thrown:
  "store (recommendationsQuery toText preferredDuration tierLevel) [] = Inr activities \<Longrightarrow>
   recommend fitnessGoal activities = Inl e \<Longrightarrow>
   getRecommendations store toText fitnessGoal preferredDuration tierLevel
     = ([Fetch (recommendationsQuery toText preferredDuration tierLevel) []], Inl e)"
  by (simp add: getRecommendations_def fetch_answered andThen_thrown)

lemma getRecommendations_returned_cases:
  assumes "returned (getRecommendations store toText fitnessGoal preferredDuration tierLevel)"
  shows "\<exists>activities recommended.
      store (recommendationsQuery toText preferredDuration tierLevel) [] = Inr activities
      \<and> recommend fitnessGoal activities = Inr recommended"
proof (cases "store (recommendationsQuery toText preferredDuration tierLevel) []")
  case (Inl e)
  with assms show ?thesis
    by (simp add: getRecommendations_def fetch_rejected returned_def)
next
  case answered: (Inr activities)
  show ?thesis
  proof (cases "recommend fitnessGoal activities")
    case (Inl e)
    with assms answered show ?thesis
      by (simp add: getRecommendations_thrown returned_def)
  next
    case (Inr recommended)
    with answered show ?thesis
      by simp
  qed
qed

section \<open>What each tool returns\<close>

lemma searchClasses_response:
  "store (searchClasses_query query instructor tierLevel) [] = Inr activities \<Longrightarrow>
   outcome (searchClasses store query wanted instructor tierLevel) =
     Inr [(''count'',
           JNumber (fromNat (length
             (case wanted of
                None \<Rightarrow> activities
              | Some c \<Rightarrow> if c = [] then activities else filter (inCategory c) activities)))),
          (''classes'',
           JArray (map JDoc
             (case wanted of
                None \<Rightarrow> activities
              | Some c \<Rightarrow> if c = [] then activities else filter (inCategory c) activities)))]"
  by (simp add: searchClasses_def fetch_answered returns_def Let_def)

lemma getClassSessions_response:
  "store sessionsQuery [(''classNamePattern'', ''*'' @ className @ ''*'')] = Inr sessions \<Longrightarrow>
   outcome (getClassSessions store className) =
     Inr [(''count'', JNumber (fromNat (length sessions))),
          (''sessions'', JArray (map sessionItem sessions))]"
  by (simp add: getClassSessions_def fetch_answered returns_def)

lemma searchVenues_response_all:
  "\<not> truthy venueName \<Longrightarrow> \<not> truthy city \<Longrightarrow>
   store (Imported AI_SEARCH_VENUES_QUERY) [] = Inr venues \<Longrightarrow>
   outcome (searchVenues store venueName city) =
     Inr [(''count'', JNumber (fromNat (length venues))), (''venues'', JArray (map JDoc venues))]"
  by (simp add: searchVenues_def fetch_answered returns_def)

lemma searchVenues_response_filtered:
  "truthy venueName \<or> truthy city \<Longrightarrow>
   store (venuesQuery venueName city) [] = Inr venues \<Longrightarrow>
   outcome (searchVenues store venueName city) =
     Inr [(''count'', JNumber (fromNat (length venues))), (''venues'', JArray (map JDoc venues))]"
  by (auto simp add: searchVenues_def fetch_answered returns_def)

lemma getCategories_response:
  "store (Imported AI_CATEGORIES_QUERY) [] = Inr categories \<Longrightarrow>
   outcome (getCategories store) =
     Inr [(''count'', JNumber (fromNat (length categories))),
          (''categories'', JArray (map JDoc categories))]"
  by (simp add: getCategories_def fetch_answered returns_def)

lemma getUserBookings_unauthenticated:
  "\<not> truthy clerkId \<Longrightarrow>
   getUserBookings store requested clerkId =
     ([], Inr [(''error'', JString ''User not authenticated''),
               (''count'', JNumber (Finite 0)),
               (''bookings'', JArray [])])"
  by (simp add: getUserBookings_def truthy_def returns_def Let_def split: option.splits)

lemma getUserBookings_authenticated:
  "cid \<noteq> [] \<Longrightarrow>
   store (bookingsQuery (typeOrDefault requested)) [(''clerkId'', cid)] = Inr bookings \<Longrightarrow>
   getUserBookings store requested (Some cid) =
     ([Fetch (bookingsQuery (typeOrDefault requested)) [(''clerkId'', cid)]],
      Inr [(''count'', JNumber (fromNat (length bookings))),
           (''type'', JString (bookings_type_name (typeOrDefault requested))),
           (''bookings'', JArray (map bookingItem bookings))])"
  by (simp add: getUserBookings_def fetch_answered returns_def Let_def)

lemmas reading = countsList_def listWithin_def responseField_def returned_def

section \<open>Claim C1: the count of a response\<close>

text \<open>
  Claim C1, as amended. Each tool of \<^verbatim>\<open>aiTools\<close> other than \<^verbatim>\<open>getSubscriptionInfo\<close>
  returns, whenever the store answers its query, an object whose \<^verbatim>\<open>count\<close> is the
  length of the list in the same object: \<^verbatim>\<open>classes\<close>, \<^verbatim>\<open>sessions\<close>, \<^verbatim>\<open>venues\<close>
  (on both paths of \<^verbatim>\<open>searchVenues\<close>), \<^verbatim>\<open>categories\<close> and \<^verbatim>\<open>bookings\<close> (with and
  without a \<^verbatim>\<open>clerkId\<close>; without one no store is asked). Every object that
  \<^verbatim>\<open>getRecommendations\<close> returns has a \<^verbatim>\<open>count\<close> equal to the length of its
  \<^verbatim>\<open>recommendations\<close>, and it returns one whenever the store answers and either no
  fitness goal is given or every category in the answer has a name.
\<close>

theorem tools_count_is_list_length:
  "(storeA (searchClasses_query query instructor tierLevel) [] = Inr activities \<longrightarrow>
      countsList ''classes'' (searchClasses storeA query wanted instructor tierLevel))
   \<and> (storeS sessionsQuery [(''classNamePattern'', ''*'' @ className @ ''*'')] = Inr sessions \<longrightarrow>
      countsList ''sessions'' (getClassSessions storeS className))
   \<and> (\<not> truthy venueName \<and> \<not> truthy city
        \<and> storeV (Imported AI_SEARCH_VENUES_QUERY) [] = Inr venues \<longrightarrow>
      countsList ''venues'' (searchVenues storeV venueName city))
   \<and> ((truthy venueName' \<or> truthy city')
        \<and> storeW (venuesQuery venueName' city') [] = Inr venues' \<longrightarrow>
      countsList ''venues'' (searchVenues storeW venueName' city'))
   \<and> (storeC (Imported AI_CATEGORIES_QUERY) [] = Inr categories \<longrightarrow>
      countsList ''categories'' (getCategories storeC))
   \<and> (returned (getRecommendations storeR toText fitnessGoal preferredDuration userTier) \<longrightarrow>
      countsList ''recommendations''
        (getRecommendations storeR toText fitnessGoal preferredDuration userTier))
   \<and> (storeQ (recommendationsQuery toText' preferredDuration' userTier') [] = Inr offered
        \<and> (fitnessGoal' = None \<or> categoriesNamed offered) \<longrightarrow>
      countsList ''recommendations''
        (getRecommendations storeQ toText' fitnessGoal' preferredDuration' userTier'))
   \<and> (\<not> truthy clerkId \<longrightarrow>
      countsList ''bookings'' (getUserBookings storeB requested clerkId))
   \<and> (cid \<noteq> []
        \<and> storeD (bookingsQuery (typeOrDefault requested')) [(''clerkId'', cid)] = Inr bookings \<longrightarrow>
      countsList ''bookings'' (getUserBookings storeD requested' (Some cid)))"
proof (intro conjI impI)
  assume "storeA (searchClasses_query query instructor tierLevel) [] = Inr activities"
  then show "countsList ''classes'' (searchClasses storeA query wanted instructor tierLevel)"
    by (simp add: reading searchClasses_response)
next
  assume "storeS sessionsQuery [(''classNamePattern'', ''*'' @ className @ ''*'')] = Inr sessions"
  then show "countsList ''sessions'' (getClassSessions storeS className)"
    by (simp add: reading getClassSessions_response)
next
  assume "\<not> truthy venueName \<and> \<not> truthy city
        \<and> storeV (Imported AI_SEARCH_VENUES_QUERY) [] = Inr venues"
  then show "countsList ''venues'' (searchVenues storeV venueName city)"
    by (simp add: reading searchVenues_response_all)
next
  assume "(truthy venueName' \<or> truthy city')
        \<and> storeW (venuesQuery venueName' city') [] = Inr venues'"
  then show "countsList ''venues'' (searchVenues storeW venueName' city')"
    by (simp add: reading searchVenues_response_filtered)
next
  assume "storeC (Imported AI_CATEGORIES_QUERY) [] = Inr categories"
  then show "countsList ''categories'' (getCategories storeC)"
    by (simp add: reading getCategories_response)
next
  assume "returned (getRecommendations storeR toText fitnessGoal preferredDuration userTier)"
  then obtain activities recommended where
    "storeR (recommendationsQuery toText preferredDuration userTier) [] = Inr activities"
    and "recommend fitnessGoal activities = Inr recommended"
    using getRecommendations_returned_cases by blast
  then show "countsList ''recommendations''
        (getRecommendations storeR toText fitnessGoal preferredDuration userTier)"
    by (simp add: countsList_def getRecommendations_response min_def)
next
  assume given: "storeQ (recommendationsQuery toText' preferredDuration' userTier') [] = Inr offered
        \<and> (fitnessGoal' = None \<or> categoriesNamed offered)"
  then obtain recommended where "recommend fitnessGoal' offered = Inr recommended"
    using recommend_returns by blast
  with given show "countsList ''recommendations''
        (getRecommendations storeQ toText' fitnessGoal' preferredDuration' userTier')"
    by (simp add: countsList_def getRecommendations_response min_def)
next
  assume "\<not> truthy clerkId"
  then show "countsList ''bookings'' (getUserBookings storeB requested clerkId)"
    by (simp add: reading getUserBookings_unauthenticated fromNat_def)
next
  assume "cid \<noteq> []
        \<and> storeD (bookingsQuery (typeOrDefault requested')) [(''clerkId'', cid)] = Inr bookings"
  then show "countsList ''bookings'' (getUserBookings storeD requested' (Some cid))"
    by (simp add: reading getUserBookings_authenticated)
qed

text \<open>The theorem of claim C1 at sample stores: the hypothesis of every part holds there.\<close>

lemma sample_recommendations_returned:
  "returned (getRecommendations (answering sampleActivities) textOf30And60 None None None)"
  by (simp add: getRecommendations_response answering_def recommend_without_goal)

lemma sampleActivities_named: "categoriesNamed (sampleActivities @ sampleActivities)"
  by (simp add: categoriesNamed_def sampleActivities_def)

theorem tools_count_is_list_length_witness:
  "countsList ''classes'' (searchClasses (answering sampleActivities) None (Some ''yoga'') None None)
   \<and> countsList ''sessions'' (getClassSessions (answering sampleSessions) ''Yoga'')
   \<and> countsList ''venues'' (searchVenues (answering [''v1'', ''v2'']) None (Some ''''))
   \<and> countsList ''venues'' (searchVenues (answering [''v1'']) (Some ''Gym'') None)
   \<and> countsList ''categories'' (getCategories (answering [''c1'', ''c2'', ''c3'']))
   \<and> countsList ''recommendations''
        (getRecommendations (answering sampleActivities) textOf30And60 None None None)
   \<and> countsList ''recommendations''
        (getRecommendations (answering (sampleActivities @ sampleActivities)) textOf30And60
           (Some flexibility) None None)
   \<and> countsList ''bookings'' (getUserBookings rejecting None (Some ''''))
   \<and> countsList ''bookings'' (getUserBookings (answering sampleBookings) (Some past) (Some ''user_1''))"
  using tools_count_is_list_length
    [where storeA = "answering sampleActivities" and query = None and instructor = None
       and tierLevel = None and activities = sampleActivities and wanted = "Some ''yoga''"
       and storeS = "answering sampleSessions" and className = "''Yoga''"
       and sessions = sampleSessions
       and storeV = "answering [''v1'', ''v2'']" and venueName = None and city = "Some ''''"
       and venues = "[''v1'', ''v2'']"
       and storeW = "answering [''v1'']" and venueName' = "Some ''Gym''" and city' = None
       and venues' = "[''v1'']"
       and storeC = "answering [''c1'', ''c2'', ''c3'']" and categories = "[''c1'', ''c2'', ''c3'']"
       and storeR = "answering sampleActivities" and toText = textOf30And60
       and fitnessGoal = None and preferredDuration = None and userTier = None
       and storeQ = "answering (sampleActivities @ sampleActivities)" and toText' = textOf30And60
       and preferredDuration' = None and userTier' = None
       and offered = "sampleActivities @ sampleActivities" and fitnessGoal' = "Some flexibility"
       and storeB = rejecting and requested = None and clerkId = "Some ''''"
       and storeD = "answering sampleBookings" and requested' = "Some past" and cid = "''user_1''"
       and bookings = sampleBookings]
    sample_recommendations_returned sampleActivities_named
  by (simp add: answering_def truthy_def)

text \<open>
  Claim C1 as it was stated fails at \<^verbatim>\<open>getSubscriptionInfo\<close>: the tool returns its
  object, and the object has no field \<^verbatim>\<open>count\<close>.
\<close>

theorem subscription_info_has_no_count:
  "returned getSubscriptionInfo \<and> responseField ''count'' getSubscriptionInfo = None"
  by (simp add: getSubscriptionInfo_def returned_def responseField_def returns_def)

section \<open>Claim C4: bookings without a user identifier\<close>

text \<open>
  Claim C4. When the \<^verbatim>\<open>clerkId\<close> given to \<^verbatim>\<open>getUserBookings\<close> is absent or empty,
  the tool asks the store nothing, throws nothing and returns an object with the error
  \<^verbatim>\<open>"User not authenticated"\<close>, the count 0 and an empty list of bookings, whatever
  the store would have answered.
\<close>

theorem bookings_without_clerkId:
  assumes "\<not> truthy clerkId"
  shows "calls (getUserBookings store requested clerkId) = []
     \<and> returned (getUserBookings store requested clerkId)
     \<and> responseField ''error'' (getUserBookings store requested clerkId)
         = Some (JString ''User not authenticated'')
     \<and> responseField ''count'' (getUserBookings store requested clerkId)
         = Some (JNumber (Finite 0))
     \<and> responseField ''bookings'' (getUserBookings store requested clerkId) = Some (JArray [])"
  using assms by (simp add: getUserBookings_unauthenticated reading)

text \<open>The theorem of claim C4 for an absent and for an empty identifier, over a store that
  rejects every request.\<close>

theorem bookings_without_clerkId_witness:
  "\<not> truthy None \<and> \<not> truthy (Some '''')
   \<and> getUserBookings rejecting (Some all_bookings) None
       = ([], Inr [(''error'', JString ''User not authenticated''),
                   (''count'', JNumber (Finite 0)),
                   (''bookings'', JArray [])])
   \<and> calls (getUserBookings rejecting None (Some '''')) = []
   \<and> responseField ''error'' (getUserBookings rejecting None (Some ''''))
       = Some (JString ''User not authenticated'')
   \<and> responseField ''bookings'' (getUserBookings rejecting None None) = Some (JArray [])"
  using bookings_without_clerkId [of None rejecting "Some all_bookings"]
    bookings_without_clerkId [of "Some ''''" rejecting None]
    bookings_without_clerkId [of None rejecting None]
  by (simp add: truthy_def getUserBookings_def returns_def)

section \<open>Claim C6: the length of a returned list\<close>





section \<open>Claim C7: the security headers\<close>

text \<open>
  Claim C7, as amended. \<^verbatim>\<open>headers()\<close> has one rule, for the source \<^verbatim>\<open>/:path*\<close>. It
  sets \<^verbatim>\<open>X-Content-Type-Options: nosniff\<close>, \<^verbatim>\<open>X-Frame-Options: SAMEORIGIN\<close> (framing
  is left to pages of the same origin), \<^verbatim>\<open>Referrer-Policy: strict-origin-when-cross-origin\<close>
  and a \<^verbatim>\<open>Permissions-Policy\<close> of 16 directives joined by a comma and a space, of
  which 14 allow their feature to no origin (geolocation, microphone, camera and payment
  among them) and two, fullscreen and picture-in-picture, to the page's own origin.
\<close>

theorem security_headers_on_every_route:
  "map source nextConfig_headers = [''/:path*'']
   \<and> map (\<lambda>r. map_of (headers r) ''X-Content-Type-Options'') nextConfig_headers
       = [Some ''nosniff'']
   \<and> map (\<lambda>r. map_of (headers r) ''X-Frame-Options'') nextConfig_headers
       = [Some ''SAMEORIGIN'']
   \<and> map (\<lambda>r. map_of (headers r) ''Referrer-Policy'') nextConfig_headers
       = [Some ''strict-origin-when-cross-origin'']
   \<and> map (\<lambda>r. map_of (headers r) ''Permissions-Policy'') nextConfig_headers
       = [Some (join '', '' permissionsPolicy)]
   \<and> set [''geolocation=()'', ''microphone=()'', ''camera=()'', ''payment=()'']
       \<subseteq> set (filter deniesAll permissionsPolicy)
   \<and> length (filter deniesAll permissionsPolicy) = 14
   \<and> filter (\<lambda>d. \<not> deniesAll d) permissionsPolicy
       = [''fullscreen=(self)'', ''picture-in-picture=(self)'']"
  by (simp add: nextConfig_headers_def permissionsPolicy_def deniesAll_def)

text \<open>
  Claim C7 as it was stated, with framing denied, fails: the rule's
  \<^verbatim>\<open>X-Frame-Options\<close> is not \<^verbatim>\<open>DENY\<close>.
\<close>

theorem framing_is_not_denied: "\<not> list_all deniesFraming nextConfig_headers"
  by (simp add: deniesFraming_def nextConfig_headers_def)

section \<open>Claim C8: the free places of a session\<close>

lemma sessionItem_spots:
  "itemField ''spotsAvailable'' (sessionItem s) = Some (JNumber (spotsAvailable s))"
  by (simp add: sessionItem_def)

lemma spotsAvailable_formula:
  "spotsAvailable s = Math_max_0 (js_sub (orZero (maxCapacity s)) (orZero (currentBookings s)))"
  by (simp add: spotsAvailable_def Let_def)

lemma nonNegative_max_of_difference:
  "isFinite a \<Longrightarrow> isFinite b \<Longrightarrow> nonNegative (Math_max_0 (js_sub a b))"
proof -
  assume "isFinite a" and "isFinite b"
  then obtain x y where a: "a = Finite x" and b: "b = Finite y"
    by (cases a; cases b) simp_all
  show ?thesis
    using toDouble_not_NaN [of "x - y"]
    by (cases "toDouble (x - y)") (simp_all add: a b js_sub_def)
qed

lemma whole_difference:
  assumes "\<bar>c - b\<bar> < 2 ^ 53"
  shows "Math_max_0 (js_sub (Finite (of_int c)) (Finite (of_int b))) = Finite (of_int (max 0 (c - b)))"
proof -
  have "js_sub (Finite (of_int c)) (Finite (of_int b)) = toDouble (of_int (c - b))"
    by (simp add: js_sub_def)
  also have "\<dots> = Finite (of_int (c - b))"
    using assms by (rule toDouble_of_int)
  finally show ?thesis
    by (simp add: max_def)
qed

text \<open>The rounding of a difference that is not a double: \<open>2 ^ 53 + 1\<close> lies between two
  doubles, and the tie goes to the even one.\<close>

lemma rounding_above_two_to_53:
  "js_sub (Finite 9007199254740994) (Finite 1) = Finite 9007199254740992"
  by code_simp

text \<open>
  Claim C8, as amended. Whatever sessions the store answers to \<^verbatim>\<open>getClassSessions\<close>,
  the returned list has one item for each session, in order, and the \<^verbatim>\<open>spotsAvailable\<close>
  of the item is \<^verbatim>\<open>Math.max(0, maxCapacity - currentBookings)\<close> in the arithmetic of
  doubles, either operand taken as 0 when it is null. When both are finite or null, it is
  a number that is not negative. When both are whole numbers (or null) whose difference
  is below \<open>2 ^ 53\<close> in size, it is the whole number \<open>max 0 (maxCapacity - currentBookings)\<close>.
\<close>

theorem spots_available_by_double_arithmetic:
  assumes answer:
    "store sessionsQuery [(''classNamePattern'', ''*'' @ className @ ''*'')] = Inr sessions"
  shows "\<exists>items.
      responseField ''sessions'' (getClassSessions store className) = Some (JArray items)
      \<and> length items = length sessions
      \<and> (\<forall>i < length sessions.
            \<exists>n. itemField ''spotsAvailable'' (items ! i) = Some (JNumber n)
              \<and> n = Math_max_0 (js_sub (orZero (maxCapacity (sessions ! i)))
                                       (orZero (currentBookings (sessions ! i))))
              \<and> (isFinite (orZero (maxCapacity (sessions ! i)))
                   \<and> isFinite (orZero (currentBookings (sessions ! i))) \<longrightarrow> nonNegative n)
              \<and> (\<forall>c b. orZero (maxCapacity (sessions ! i)) = Finite (of_int c)
                     \<and> orZero (currentBookings (sessions ! i)) = Finite (of_int b)
                     \<and> \<bar>c - b\<bar> < 2 ^ 53 \<longrightarrow>
                   n = Finite (of_int (max 0 (c - b)))))"
proof -
  let ?items = "map sessionItem sessions"
  have "responseField ''sessions'' (getClassSessions store className) = Some (JArray ?items)"
    using answer by (simp add: responseField_def getClassSessions_response)
  moreover have "length ?items = length sessions"
    by simp
  moreover have "\<forall>i < length sessions.
      \<exists>n. itemField ''spotsAvailable'' (?items ! i) = Some (JNumber n)
        \<and> n = Math_max_0 (js_sub (orZero (maxCapacity (sessions ! i)))
                                 (orZero (currentBookings (sessions ! i))))
        \<and> (isFinite (orZero (maxCapacity (sessions ! i)))
             \<and> isFinite (orZero (currentBookings (sessions ! i))) \<longrightarrow> nonNegative n)
        \<and> (\<forall>c b. orZero (maxCapacity (sessions ! i)) = Finite (of_int c)
               \<and> orZero (currentBookings (sessions ! i)) = Finite (of_int b)
               \<and> \<bar>c - b\<bar> < 2 ^ 53 \<longrightarrow>
             n = Finite (of_int (max 0 (c - b))))"
    by (simp add: sessionItem_spots spotsAvailable_formula nonNegative_max_of_difference
        whole_difference)
  ultimately show ?thesis
    by blast
qed

text \<open>The theorem of claim C8 at four sessions: one with free places, one with no capacity
  recorded, one overbooked and one with no bookings counted.\<close>

theorem spots_available_by_double_arithmetic_witness:
  "answering sampleSessions sessionsQuery [(''classNamePattern'', ''*'' @ ''Yoga'' @ ''*'')]
     = Inr sampleSessions
   \<and> (\<exists>items.
        responseField ''sessions'' (getClassSessions (answering sampleSessions) ''Yoga'')
          = Some (JArray items)
        \<and> length items = 4
        \<and> itemField ''spotsAvailable'' (items ! 0) = Some (JNumber (Finite 7))
        \<and> itemField ''spotsAvailable'' (items ! 1) = Some (JNumber (Finite 0))
        \<and> itemField ''spotsAvailable'' (items ! 2) = Some (JNumber (Finite 0))
        \<and> itemField ''spotsAvailable'' (items ! 3) = Some (JNumber (Finite 4)))"
proof -
  have answer:
    "answering sampleSessions sessionsQuery [(''classNamePattern'', ''*'' @ ''Yoga'' @ ''*'')]
       = Inr sampleSessions"
    by (simp add: answering_def)
  have four: "length sampleSessions = 4"
    by (simp add: sampleSessions_def)
  from answer
    spots_available_by_double_arithmetic
      [where store = "answering sampleSessions" and className = "''Yoga''"
         and sessions = sampleSessions]
  obtain items where
    items: "responseField ''sessions'' (getClassSessions (answering sampleSessions) ''Yoga'')
        = Some (JArray items)"
    and size: "length items = length sampleSessions"
    and each: "\<forall>i < length sampleSessions.
        \<exists>n. itemField ''spotsAvailable'' (items ! i) = Some (JNumber n)
          \<and> n = Math_max_0 (js_sub (orZero (maxCapacity (sampleSessions ! i)))
                                   (orZero (currentBookings (sampleSessions ! i))))
          \<and> (isFinite (orZero (maxCapacity (sampleSessions ! i)))
               \<and> isFinite (orZero (currentBookings (sampleSessions ! i))) \<longrightarrow> nonNegative n)
          \<and> (\<forall>c b. orZero (maxCapacity (sampleSessions ! i)) = Finite (of_int c)
                 \<and> orZero (currentBookings (sampleSessions ! i)) = Finite (of_int b)
                 \<and> \<bar>c - b\<bar> < 2 ^ 53 \<longrightarrow>
               n = Finite (of_int (max 0 (c - b))))"
    by blast
  have spot: "itemField ''spotsAvailable'' (items ! i) = Some (JNumber (Finite (of_int (max 0 (c - b)))))"
    if "i < 4"
      and "orZero (maxCapacity (sampleSessions ! i)) = Finite (of_int c)"
      and "orZero (currentBookings (sampleSessions ! i)) = Finite (of_int b)"
      and "\<bar>c - b\<bar> < 2 ^ 53"
    for i c b
  proof -
    from each that(1) four obtain n where
      field: "itemField ''spotsAvailable'' (items ! i) = Some (JNumber n)"
      and whole: "\<forall>c b. orZero (maxCapacity (sampleSessions ! i)) = Finite (of_int c)
                 \<and> orZero (currentBookings (sampleSessions ! i)) = Finite (of_int b)
                 \<and> \<bar>c - b\<bar> < 2 ^ 53 \<longrightarrow>
               n = Finite (of_int (max 0 (c - b)))"
      by auto
    from whole that(2-4) have "n = Finite (of_int (max 0 (c - b)))"
      by blast
    with field show ?thesis
      by simp
  qed
  have first: "itemField ''spotsAvailable'' (items ! 0) = Some (JNumber (Finite 7))"
    using spot [of 0 10 3] by (simp add: sampleSessions_def orZero_def)
  have second: "itemField ''spotsAvailable'' (items ! 1) = Some (JNumber (Finite 0))"
    using spot [of 1 0 2] by (simp add: sampleSessions_def orZero_def)
  have third: "itemField ''spotsAvailable'' (items ! 2) = Some (JNumber (Finite 0))"
    using spot [of 2 5 8] by (simp add: sampleSessions_def orZero_def)
  have fourth: "itemField ''spotsAvailable'' (items ! 3) = Some (JNumber (Finite 4))"
    using spot [of 3 4 0] by (simp add: sampleSessions_def orZero_def)
  from size four have "length items = 4"
    by simp
  with answer items first second third fourth show ?thesis
    by blast
qed

text \<open>
  Claim C8 as it was stated, with a whole number of places for every session, fails at a
  session of capacity 10.5 with 3 bookings: its \<^verbatim>\<open>spotsAvailable\<close> is 7.5.
\<close>

theorem fractional_capacity_leaves_half_a_place:
  "responseField ''sessions'' (getClassSessions (answering [halfPlaceSession]) ''Yoga'')
     = Some (JArray [sessionItem halfPlaceSession])
   \<and> maxCapacity halfPlaceSession = Some (Finite (21 / 2))
   \<and> currentBookings halfPlaceSession = Some (Finite 3)
   \<and> itemField ''spotsAvailable'' (sessionItem halfPlaceSession) = Some (JNumber (Finite (15 / 2)))
   \<and> \<not> isWhole (Finite (15 / 2))"
proof -
  have "js_sub (Finite (21 / 2)) (Finite 3) = toDouble (15 / 2)"
    by (simp add: js_sub_def)
  also have "\<dots> = Finite (15 / 2)"
    using toDouble_half [of 15] by simp
  finally have spots: "spotsAvailable halfPlaceSession = Finite (15 / 2)"
    by (simp add: spotsAvailable_formula halfPlaceSession_def orZero_def)
  have "\<lfloor>15 / 2 :: rat\<rfloor> = 7"
    by (rule floor_unique) simp_all
  then have half: "\<not> isWhole (Finite (15 / 2))"
    by simp
  have "responseField ''sessions'' (getClassSessions (answering [halfPlaceSession]) ''Yoga'')
      = Some (JArray [sessionItem halfPlaceSession])"
    by (simp add: responseField_def getClassSessions_response answering_def)
  moreover have "maxCapacity halfPlaceSession = Some (Finite (21 / 2))"
    and "currentBookings halfPlaceSession = Some (Finite 3)"
    by (simp_all add: halfPlaceSession_def)
  moreover have "itemField ''spotsAvailable'' (sessionItem halfPlaceSession)
      = Some (JNumber (Finite (15 / 2)))"
    by (simp add: sessionItem_spots spots)
  ultimately show ?thesis
    using half by (intro conjI)
qed

section \<open>Claim C9: recommendations for a fitness goal\<close>

text \<open>When every category in the store's answer has a name, the tool does what the claim
  says: it recommends the first five of the activities whose category matches a target
  category of the goal, or the first five of all the activities when none matches, and
  its list is empty only when the store's answer is.\<close>

lemma recommendations_fall_back_when_named:
  assumes answer:
    "store (recommendationsQuery toText preferredDuration tierLevel) [] = Inr activities"
    and named: "categoriesNamed activities"
  shows "\<exists>targets recommended.
      map_of goalCategories (goal_name g) = Some targets
      \<and> responseField ''recommendations''
            (getRecommendations store toText (Some g) preferredDuration tierLevel)
          = Some (JArray (map JDoc recommended))
      \<and> ((\<forall>a \<in> set activities. \<not> matchesTargets targets a) \<longrightarrow>
            recommended = take 5 activities)
      \<and> ((\<exists>a \<in> set activities. matchesTargets targets a) \<longrightarrow>
            recommended = take 5 (filter (matchesTargets targets) activities))
      \<and> (recommended = [] \<longleftrightarrow> activities = [])"
proof -
  obtain targets where targets: "map_of goalCategories (goal_name g) = Some targets"
    using goalCategories_total by blast
  let ?chosen = "if filter (matchesTargets targets) activities = [] then activities
      else filter (matchesTargets targets) activities"
  have chosen: "recommend (Some g) activities = Inr ?chosen"
    using named targets by (rule recommend_named)
  have "responseField ''recommendations''
            (getRecommendations store toText (Some g) preferredDuration tierLevel)
          = Some (JArray (map JDoc (take 5 ?chosen)))"
    using answer chosen by (simp add: getRecommendations_response)
  moreover have "(\<forall>a \<in> set activities. \<not> matchesTargets targets a) \<longrightarrow>
      take 5 ?chosen = take 5 activities"
    by (simp add: filter_empty_conv)
  moreover have "(\<exists>a \<in> set activities. matchesTargets targets a) \<longrightarrow>
      take 5 ?chosen = take 5 (filter (matchesTargets targets) activities)"
    by (auto simp add: filter_empty_conv)
  moreover have "take 5 ?chosen = [] \<longleftrightarrow> activities = []"
    by auto
  ultimately show ?thesis
    using targets by blast
qed

text \<open>
  Claim C9 at a store answer in which the category of an activity has no name. No target
  category of the goal \<^verbatim>\<open>strength\<close> matches the activity, and the claim has the tool
  fall back to the whole answer; the tool asks the store and then throws a TypeError, from
  \<^verbatim>\<open>a.category?.name.toLowerCase()\<close>. \<^verbatim>\<open>searchClasses\<close>, which reads the name with
  \<^verbatim>\<open>name?.\<close>, returns for the same answer.
\<close>

theorem nameless_category_throws:
  "getRecommendations (answering [namelessCategory]) textOf30And60 (Some strength) None None
     = ([Fetch (recommendationsQuery textOf30And60 None None) []], Inl TypeError)
   \<and> filter (matchesTargets [''HIIT'', ''Strength'', ''CrossFit'']) [namelessCategory] = []
   \<and> outcome (searchClasses (answering [namelessCategory]) None (Some ''HIIT'') None None)
     = Inr [(''count'', JNumber (Finite 0)), (''classes'', JArray [])]"
proof -
  have "recommend (Some strength) [namelessCategory] = Inl TypeError"
    by (simp add: recommend_def goalCategories_def inTargetCategories_def targetMatches_def
        namelessCategory_def)
  then have "getRecommendations (answering [namelessCategory]) textOf30And60 (Some strength) None None
     = ([Fetch (recommendationsQuery textOf30And60 None None) []], Inl TypeError)"
    by (simp add: getRecommendations_thrown answering_def)
  moreover have "filter (matchesTargets [''HIIT'', ''Strength'', ''CrossFit'']) [namelessCategory] = []"
    by (simp add: matchesTargets_def namelessCategory_def)
  moreover have "outcome (searchClasses (answering [namelessCategory]) None (Some ''HIIT'') None None)
     = Inr [(''count'', JNumber (Finite 0)), (''classes'', JArray [])]"
    by (simp add: searchClasses_response answering_def inCategory_def namelessCategory_def
        fromNat_def)
  ultimately show ?thesis
    by (intro conjI)
qed

section \<open>Claim C10: the tiers a subscription admits\<close>



text \<open>The sum of the duration clause is a double: \<open>2 ^ 53 + 15\<close> lies between two doubles,
  and the clause carries the text of the even one.\<close>

lemma rounding_of_a_sum_above_two_to_53:
  "js_add (Finite 9007199254740992) (Finite 15) = Finite 9007199254741008"
  by code_simp




section \<open>The profile actions, path by path\<close>

lemma completeOnboarding_returned: "returned (completeOnboarding w p)"
  by (simp add: completeOnboarding_def tryCatch_def returned_def handler_outcome split: sum.splits)

lemma updateLocationPreferences_returned: "returned (updateLocationPreferences w p)"
  by (simp add: updateLocationPreferences_def tryCatch_def returned_def handler_outcome
      split: sum.splits)

lemma completeOnboarding_caught:
  "outcome (completeOnboarding_try w p) = Inl e \<Longrightarrow>
   outcome (completeOnboarding w p) = Inr (failure ''Failed to complete onboarding'')"
  by (simp add: completeOnboarding_def tryCatch_thrown handler_outcome)

lemma updateLocationPreferences_caught:
  "outcome (updateLocationPreferences_try w p) = Inl e \<Longrightarrow>
   outcome (updateLocationPreferences w p) = Inr (failure ''Failed to update preferences'')"
  by (simp add: updateLocationPreferences_def tryCatch_thrown handler_outcome)

lemma completeOnboarding_unauthorized:
  "auth w = Inr userId \<Longrightarrow> \<not> truthy userId \<Longrightarrow>
   completeOnboarding w p = ([Auth], Inr (failure ''Unauthorized''))"
  by (simp add: completeOnboarding_def completeOnboarding_try_def andThen_call_Inr returns_def
      tryCatch_def)

lemma updateLocationPreferences_unauthorized:
  "auth w = Inr userId \<Longrightarrow> \<not> truthy userId \<Longrightarrow>
   updateLocationPreferences w p = ([Auth], Inr (failure ''Unauthorized''))"
  by (simp add: updateLocationPreferences_def updateLocationPreferences_try_def andThen_call_Inr
      returns_def tryCatch_def)

lemma completeOnboarding_invalid:
  "auth w = Inr userId \<Longrightarrow> truthy userId \<Longrightarrow>
   \<not> isValidLocation (location p) \<or> \<not> isValidRadius (searchRadius p) \<Longrightarrow>
   completeOnboarding w p =
     ([Auth], Inr (failure (if \<not> isValidLocation (location p) then ''Location is required''
                            else ''Search radius is required'')))"
  by (auto simp add: completeOnboarding_def completeOnboarding_try_def andThen_call_Inr returns_def
      tryCatch_def)

lemma updateLocationPreferences_invalid:
  "auth w = Inr userId \<Longrightarrow> truthy userId \<Longrightarrow>
   \<not> isValidLocation (location p) \<or> \<not> isValidRadius (searchRadius p) \<Longrightarrow>
   updateLocationPreferences w p =
     ([Auth], Inr (failure (if \<not> isValidLocation (location p) then ''Location is required''
                            else ''Search radius is required'')))"
  by (auto simp add: updateLocationPreferences_def updateLocationPreferences_try_def andThen_call_Inr
      returns_def tryCatch_def)

section \<open>Claim C2: preferences without a location or a radius\<close>

text \<open>
  Claim C2. When a user is signed in and the submitted preferences have no valid location
  (a \<^verbatim>\<open>lat\<close> and a \<^verbatim>\<open>lng\<close> that are numbers and an address that is not blank) or no
  valid search radius (a finite number, at least 1), \<^verbatim>\<open>completeOnboarding\<close> and
  \<^verbatim>\<open>updateLocationPreferences\<close> return \<^verbatim>\<open>success: false\<close> with the error
  \<^verbatim>\<open>"Location is required"\<close> or \<^verbatim>\<open>"Search radius is required"\<close>, and the only call
  they made is the one that asks who is signed in: nothing was written to the store.
\<close>

theorem invalid_preferences_fail_without_write:
  assumes "auth w = Inr userId" and "truthy userId"
    and "\<not> isValidLocation (location p) \<or> \<not> isValidRadius (searchRadius p)"
  shows "outcome (completeOnboarding w p)
       = Inr \<lparr>success = False, message = None,
              error = Some (if \<not> isValidLocation (location p) then ''Location is required''
                            else ''Search radius is required'')\<rparr>
     \<and> calls (completeOnboarding w p) = [Auth]
     \<and> filter isWrite (calls (completeOnboarding w p)) = []
     \<and> outcome (updateLocationPreferences w p)
       = Inr \<lparr>success = False, message = None,
              error = Some (if \<not> isValidLocation (location p) then ''Location is required''
                            else ''Search radius is required'')\<rparr>
     \<and> calls (updateLocationPreferences w p) = [Auth]
     \<and> filter isWrite (calls (updateLocationPreferences w p)) = []"
  using assms
  by (simp add: completeOnboarding_invalid updateLocationPreferences_invalid failure_def)

text \<open>The theorem of claim C2 at preferences with no location, with a blank address, with
  the radius NaN and with the radius one half.\<close>

theorem invalid_preferences_fail_without_write_witness:
  "completeOnboarding (signedIn ''user_1'') (samplePreferences\<lparr>location := None\<rparr>)
     = ([Auth], Inr \<lparr>success = False, message = None, error = Some ''Location is required''\<rparr>)
   \<and> updateLocationPreferences (signedIn ''user_1'')
        (samplePreferences\<lparr>location :=
           Some \<lparr>lat = Some (Finite 0), lng = Some (Finite 0), address = Some ''   ''\<rparr>\<rparr>)
     = ([Auth], Inr \<lparr>success = False, message = None, error = Some ''Location is required''\<rparr>)
   \<and> completeOnboarding (signedIn ''user_1'') (samplePreferences\<lparr>searchRadius := Some NaN\<rparr>)
     = ([Auth], Inr \<lparr>success = False, message = None, error = Some ''Search radius is required''\<rparr>)
   \<and> updateLocationPreferences (signedIn ''user_1'')
        (samplePreferences\<lparr>searchRadius := Some (Finite (1 / 2))\<rparr>)
     = ([Auth], Inr \<lparr>success = False, message = None, error = Some ''Search radius is required''\<rparr>)"
  using invalid_preferences_fail_without_write
      [of "signedIn ''user_1''" "Some ''user_1''" "samplePreferences\<lparr>location := None\<rparr>"]
    invalid_preferences_fail_without_write
      [of "signedIn ''user_1''" "Some ''user_1''"
          "samplePreferences\<lparr>location :=
             Some \<lparr>lat = Some (Finite 0), lng = Some (Finite 0), address = Some ''   ''\<rparr>\<rparr>"]
    invalid_preferences_fail_without_write
      [of "signedIn ''user_1''" "Some ''user_1''" "samplePreferences\<lparr>searchRadius := Some NaN\<rparr>"]
    invalid_preferences_fail_without_write
      [of "signedIn ''user_1''" "Some ''user_1''"
          "samplePreferences\<lparr>searchRadius := Some (Finite (1 / 2))\<rparr>"]
  by (simp add: signedIn_def samplePreferences_def truthy_def isValidLocation_def isValidRadius_def
      trim_def isWhiteSpace_def prod_eq_iff)

section \<open>Claim C3: what is written for valid preferences\<close>

lemma patches_append: "patches (s @ t) = patches s @ patches t"
  by (induction s rule: patches.induct) simp_all

lemma patches_andThen:
  "patches (calls (andThen m f)) =
     patches (calls m) @ (case outcome m of Inl e \<Rightarrow> [] | Inr a \<Rightarrow> patches (calls (f a)))"
  by (simp add: andThen_def patches_append split: sum.splits)

lemma patches_tryCatch:
  "patches (calls (tryCatch m h)) =
     patches (calls m) @ (case outcome m of Inl e \<Rightarrow> patches (calls (h e)) | Inr a \<Rightarrow> [])"
  by (simp add: tryCatch_def patches_append split: sum.splits)

lemma patches_returns: "patches (calls (returns a)) = []"
  by (simp add: returns_def)

lemma patches_call: "patches (calls (call ev r)) = patches [ev]"
  by (simp add: call_def)

lemma patches_revalidateAll: "patches (calls (revalidateAll w)) = []"
  by (simp add: revalidateAll_def patches_andThen patches_call split: sum.splits)

lemma patches_patchSetCommit:
  "location p = Some l \<Longrightarrow>
   patches (calls (patchSetCommit w docId p)) =
     [(docId,
       \<lparr>patch_location = \<lparr>lat = lat l, lng = lng l, address = address l\<rparr>,
        patch_searchRadius = searchRadius p\<rparr>)]"
  by (simp add: patchSetCommit_def preferencePatch_def andThen_returns call_def)

lemma completeOnboarding_patches:
  assumes "auth w = Inr (Some uid)" and "uid \<noteq> []"
    and "isValidLocation (location p)" and "isValidRadius (searchRadius p)"
    and "location p = Some l"
  shows "patches (calls (completeOnboarding w p)) =
     (case getOrCreateUserProfile w uid of
        Inl e \<Rightarrow> []
      | Inr docId \<Rightarrow>
          [(docId,
            \<lparr>patch_location = \<lparr>lat = lat l, lng = lng l, address = address l\<rparr>,
             patch_searchRadius = searchRadius p\<rparr>)])"
  using assms
  by (simp add: completeOnboarding_def completeOnboarding_try_def patches_tryCatch patches_andThen
      patches_call patches_returns outcome_call truthy_def patches_patchSetCommit
      patches_revalidateAll split: sum.splits)

lemma updateLocationPreferences_patches:
  assumes "auth w = Inr (Some uid)" and "uid \<noteq> []"
    and "isValidLocation (location p)" and "isValidRadius (searchRadius p)"
    and "location p = Some l"
  shows "patches (calls (updateLocationPreferences w p)) =
     (case fetchUserProfile w uid of
        Inl e \<Rightarrow> []
      | Inr found \<Rightarrow>
          (case Option.bind found profile_id of
             None \<Rightarrow> []
           | Some docId \<Rightarrow>
               if docId = [] then []
               else [(docId,
                      \<lparr>patch_location = \<lparr>lat = lat l, lng = lng l, address = address l\<rparr>,
                       patch_searchRadius = searchRadius p\<rparr>)]))"
  using assms
  by (simp add: updateLocationPreferences_def updateLocationPreferences_try_def patches_tryCatch
      patches_andThen patches_call patches_returns outcome_call truthy_def patches_patchSetCommit
      patches_revalidateAll split: sum.splits option.splits)

text \<open>
  Claim C3. When a user is signed in and the submitted preferences have a valid location
  \<open>l\<close> and a valid search radius, every patch that \<^verbatim>\<open>completeOnboarding\<close> or
  \<^verbatim>\<open>updateLocationPreferences\<close> sends to the store sets the submitted \<^verbatim>\<open>lat\<close>,
  \<^verbatim>\<open>lng\<close>, \<^verbatim>\<open>address\<close> and \<^verbatim>\<open>searchRadius\<close>, unchanged. Once the profile document is
  known (the helper returned its id, or the store found a profile with an id), exactly one
  such patch is sent, to that document.
\<close>

theorem valid_preferences_written_as_submitted:
  assumes "auth w = Inr (Some uid)" and "uid \<noteq> []"
    and "isValidLocation (location p)" and "isValidRadius (searchRadius p)"
    and "location p = Some l"
  shows "(\<forall>sent \<in> set (patches (calls (completeOnboarding w p))).
            lat (patch_location (snd sent)) = lat l
            \<and> lng (patch_location (snd sent)) = lng l
            \<and> address (patch_location (snd sent)) = address l
            \<and> patch_searchRadius (snd sent) = searchRadius p)
     \<and> (\<forall>docId. getOrCreateUserProfile w uid = Inr docId \<longrightarrow>
            patches (calls (completeOnboarding w p))
              = [(docId, \<lparr>patch_location = l, patch_searchRadius = searchRadius p\<rparr>)])
     \<and> (\<forall>sent \<in> set (patches (calls (updateLocationPreferences w p))).
            lat (patch_location (snd sent)) = lat l
            \<and> lng (patch_location (snd sent)) = lng l
            \<and> address (patch_location (snd sent)) = address l
            \<and> patch_searchRadius (snd sent) = searchRadius p)
     \<and> (\<forall>found docId.
            fetchUserProfile w uid = Inr (Some found) \<and> profile_id found = Some docId
              \<and> docId \<noteq> [] \<longrightarrow>
            patches (calls (updateLocationPreferences w p))
              = [(docId, \<lparr>patch_location = l, patch_searchRadius = searchRadius p\<rparr>)])"
proof (intro conjI allI impI ballI)
  fix sent
  assume "sent \<in> set (patches (calls (completeOnboarding w p)))"
  then have sent: "snd sent
      = \<lparr>patch_location = \<lparr>lat = lat l, lng = lng l, address = address l\<rparr>,
         patch_searchRadius = searchRadius p\<rparr>"
    by (auto simp add: completeOnboarding_patches [OF assms] split: sum.splits)
  show "lat (patch_location (snd sent)) = lat l"
    and "lng (patch_location (snd sent)) = lng l"
    and "address (patch_location (snd sent)) = address l"
    and "patch_searchRadius (snd sent) = searchRadius p"
    by (simp_all add: sent)
next
  fix docId
  assume "getOrCreateUserProfile w uid = Inr docId"
  then show "patches (calls (completeOnboarding w p))
      = [(docId, \<lparr>patch_location = l, patch_searchRadius = searchRadius p\<rparr>)]"
    by (simp add: completeOnboarding_patches [OF assms])
next
  fix sent
  assume "sent \<in> set (patches (calls (updateLocationPreferences w p)))"
  then have sent: "snd sent
      = \<lparr>patch_location = \<lparr>lat = lat l, lng = lng l, address = address l\<rparr>,
         patch_searchRadius = searchRadius p\<rparr>"
    by (auto simp add: updateLocationPreferences_patches [OF assms]
        split: sum.splits option.splits if_splits)
  show "lat (patch_location (snd sent)) = lat l"
    and "lng (patch_location (snd sent)) = lng l"
    and "address (patch_location (snd sent)) = address l"
    and "patch_searchRadius (snd sent) = searchRadius p"
    by (simp_all add: sent)
next
  fix found docId
  assume "fetchUserProfile w uid = Inr (Some found) \<and> profile_id found = Some docId
      \<and> docId \<noteq> []"
  then show "patches (calls (updateLocationPreferences w p))
      = [(docId, \<lparr>patch_location = l, patch_searchRadius = searchRadius p\<rparr>)]"
    by (simp add: updateLocationPreferences_patches [OF assms])
qed

text \<open>The theorem of claim C3 for a signed-in user whose profile exists.\<close>

theorem valid_preferences_written_as_submitted_witness:
  "patches (calls (completeOnboarding (signedIn ''user_1'') samplePreferences))
     = [(''profile-user_1'',
         \<lparr>patch_location =
            \<lparr>lat = Some (Finite (1 / 2)), lng = Some (Finite (- 3)),
             address = Some ''1 Main Street''\<rparr>,
          patch_searchRadius = Some (Finite 5)\<rparr>)]
   \<and> patches (calls (updateLocationPreferences (signedIn ''user_1'') samplePreferences))
     = [(''profile-user_1'',
         \<lparr>patch_location =
            \<lparr>lat = Some (Finite (1 / 2)), lng = Some (Finite (- 3)),
             address = Some ''1 Main Street''\<rparr>,
          patch_searchRadius = Some (Finite 5)\<rparr>)]"
  using valid_preferences_written_as_submitted
      [of "signedIn ''user_1''" "''user_1''" samplePreferences
          "\<lparr>lat = Some (Finite (1 / 2)), lng = Some (Finite (- 3)),
            address = Some ''1 Main Street''\<rparr>"]
  by (simp add: signedIn_def samplePreferences_def isValidLocation_def isValidRadius_def
      trim_def isWhiteSpace_def)

section \<open>Claim C5: exceptions and unauthenticated calls\<close>

text \<open>
  Claim C5. \<^verbatim>\<open>completeOnboarding\<close> and \<^verbatim>\<open>updateLocationPreferences\<close> return a result in
  every world and for every input: no exception leaves them. When a call inside the
  \<^verbatim>\<open>try\<close> block throws, the result is \<^verbatim>\<open>success: false\<close> with the action's
  failure message. When the identity provider answers with no user id (none, or an empty
  one), the result is \<^verbatim>\<open>success: false\<close> with the error \<^verbatim>\<open>"Unauthorized"\<close>, and asking
  for the user id is the only call the action made.
\<close>

theorem actions_catch_and_short_circuit:
  "returned (completeOnboarding w p)
   \<and> returned (updateLocationPreferences w p)
   \<and> (outcome (completeOnboarding_try w1 p1) = Inl e1 \<longrightarrow>
        outcome (completeOnboarding w1 p1)
          = Inr \<lparr>success = False, message = None,
                 error = Some ''Failed to complete onboarding''\<rparr>)
   \<and> (outcome (updateLocationPreferences_try w2 p2) = Inl e2 \<longrightarrow>
        outcome (updateLocationPreferences w2 p2)
          = Inr \<lparr>success = False, message = None,
                 error = Some ''Failed to update preferences''\<rparr>)
   \<and> (auth w3 = Inr userId \<and> \<not> truthy userId \<longrightarrow>
        completeOnboarding w3 p3
          = ([Auth], Inr \<lparr>success = False, message = None, error = Some ''Unauthorized''\<rparr>)
        \<and> updateLocationPreferences w3 p3
          = ([Auth], Inr \<lparr>success = False, message = None, error = Some ''Unauthorized''\<rparr>))"
proof (intro conjI impI)
  show "returned (completeOnboarding w p)"
    by (rule completeOnboarding_returned)
  show "returned (updateLocationPreferences w p)"
    by (rule updateLocationPreferences_returned)
next
  assume "outcome (completeOnboarding_try w1 p1) = Inl e1"
  then show "outcome (completeOnboarding w1 p1)
      = Inr \<lparr>success = False, message = None, error = Some ''Failed to complete onboarding''\<rparr>"
    by (simp add: completeOnboarding_caught failure_def)
next
  assume "outcome (updateLocationPreferences_try w2 p2) = Inl e2"
  then show "outcome (updateLocationPreferences w2 p2)
      = Inr \<lparr>success = False, message = None, error = Some ''Failed to update preferences''\<rparr>"
    by (simp add: updateLocationPreferences_caught failure_def)
next
  assume unauthorized: "auth w3 = Inr userId \<and> \<not> truthy userId"
  then show "completeOnboarding w3 p3
      = ([Auth], Inr \<lparr>success = False, message = None, error = Some ''Unauthorized''\<rparr>)"
    by (simp add: completeOnboarding_unauthorized failure_def)
  from unauthorized show "updateLocationPreferences w3 p3
      = ([Auth], Inr \<lparr>success = False, message = None, error = Some ''Unauthorized''\<rparr>)"
    by (simp add: updateLocationPreferences_unauthorized failure_def)
qed

text \<open>The theorem of claim C5 in worlds where the identity provider throws, where the
  commit of the patch throws, where the profile query throws, and where nobody is signed
  in.\<close>

lemma commit_rejected_onboarding:
  "outcome (completeOnboarding_try
      ((signedIn ''user_1'')\<lparr>commit := \<lambda>docId setFields. Inl (Rejected ''timeout'')\<rparr>)
      samplePreferences) = Inl (Rejected ''timeout'')"
  by code_simp

lemma fetch_rejected_update:
  "outcome (updateLocationPreferences_try
      ((signedIn ''user_1'')\<lparr>fetchUserProfile := \<lambda>u. Inl (Rejected ''offline'')\<rparr>)
      samplePreferences) = Inl (Rejected ''offline'')"
  by code_simp

theorem actions_catch_and_short_circuit_witness:
  "returned (completeOnboarding ((signedIn ''user_1'')\<lparr>auth := Inl TypeError\<rparr>) samplePreferences)
   \<and> returned (updateLocationPreferences ((signedIn ''user_1'')\<lparr>auth := Inl TypeError\<rparr>)
        samplePreferences)
   \<and> outcome (completeOnboarding
        ((signedIn ''user_1'')\<lparr>commit := \<lambda>docId setFields. Inl (Rejected ''timeout'')\<rparr>)
        samplePreferences)
       = Inr \<lparr>success = False, message = None, error = Some ''Failed to complete onboarding''\<rparr>
   \<and> outcome (updateLocationPreferences
        ((signedIn ''user_1'')\<lparr>fetchUserProfile := \<lambda>u. Inl (Rejected ''offline'')\<rparr>)
        samplePreferences)
       = Inr \<lparr>success = False, message = None, error = Some ''Failed to update preferences''\<rparr>
   \<and> completeOnboarding ((signedIn ''user_1'')\<lparr>auth := Inr None\<rparr>) samplePreferences
       = ([Auth], Inr \<lparr>success = False, message = None, error = Some ''Unauthorized''\<rparr>)
   \<and> updateLocationPreferences ((signedIn ''user_1'')\<lparr>auth := Inr None\<rparr>) samplePreferences
       = ([Auth], Inr \<lparr>success = False, message = None, error = Some ''Unauthorized''\<rparr>)"
  using actions_catch_and_short_circuit
      [where w = "(signedIn ''user_1'')\<lparr>auth := Inl TypeError\<rparr>" and p = samplePreferences
         and ?w1.0 = "(signedIn ''user_1'')\<lparr>commit := \<lambda>docId setFields. Inl (Rejected ''timeout'')\<rparr>"
         and ?p1.0 = samplePreferences and ?e1.0 = "Rejected ''timeout''"
         and ?w2.0 = "(signedIn ''user_1'')\<lparr>fetchUserProfile := \<lambda>u. Inl (Rejected ''offline'')\<rparr>"
         and ?p2.0 = samplePreferences and ?e2.0 = "Rejected ''offline''"
         and ?w3.0 = "(signedIn ''user_1'')\<lparr>auth := Inr None\<rparr>" and ?p3.0 = samplePreferences
         and userId = None]
    commit_rejected_onboarding fetch_rejected_update
  by (simp add: truthy_def)

end
